theory Spec2Isabelle
  imports Complex_Main
begin

section \<open>Python values and errors\<close>

text \<open>
  Every \<^verbatim>\<open>raise\<close>, failed \<^verbatim>\<open>assert\<close> and run-time error of the Python sources is a value of
  \<open>py_error\<close>. A pure function returns \<open>py_error + 'a\<close>; a function that mutates an object or
  the file system returns \<open>(py_error \<times> 's) + 's\<close>, the left side holding the state as it is at
  the moment the exception leaves the function.
\<close>

datatype py_error =
    Exception string
  | TypeError string
  | ValueError string
  | IndexError string
  | KeyError string
  | AttributeError string
  | UnboundLocalError string
  | AssertionError string
  | FileExistsError string
  | NotImplementedError
  | OSError string
  | ConfigurationError "int \<times> int \<times> int \<times> int"

text \<open>\<^verbatim>\<open>range(n)\<close> as a list of Python integers.\<close>

definition py_range :: "nat \<Rightarrow> int list" where
  "py_range n = map int [0..<n]"

text \<open>\<^verbatim>\<open>xs[start:stop]\<close> with both bounds given: negative bounds count from the end, and both
  are clamped to the length.\<close>

definition slice_bound :: "nat \<Rightarrow> int \<Rightarrow> nat" where
  "slice_bound n i = (if i < 0 then nat (max 0 (int n + i)) else min n (nat i))"

definition py_slice :: "'a list \<Rightarrow> int \<Rightarrow> int \<Rightarrow> 'a list" where
  "py_slice xs start stop =
     (let lo = slice_bound (length xs) start; hi = slice_bound (length xs) stop
      in take (hi - lo) (drop lo xs))"

text \<open>\<^verbatim>\<open>enumerate(xs)\<close>.\<close>

definition enumerate_py :: "'a list \<Rightarrow> (nat \<times> 'a) list" where
  "enumerate_py xs = zip [0..<length xs] xs"

section \<open>NwbSegmentationExtractor: the in-memory extractor\<close>

text \<open>
  A numpy array of three axes is its shape and its element function; only the elements
  inside the shape are meaningful.
\<close>

record 'w ndarray3 =
  shape3 :: "nat \<times> nat \<times> nat"
  at3 :: "nat \<Rightarrow> nat \<Rightarrow> nat \<Rightarrow> 'w"

text \<open>A row of the pixel-mask table: (row, column, weight, roi id), the id in column 3.\<close>

type_synonym 'w pixel = "int \<times> int \<times> 'w \<times> int"

text \<open>
  The attributes that \<^verbatim>\<open>NwbSegmentationExtractor.__init__\<close> sets and the accessors read.
  \<open>x_roi_idx\<close> is \<^verbatim>\<open>self._roi_idx\<close>, \<open>x_accepted_list\<close> is \<^verbatim>\<open>self._accepted_list\<close>
  (\<open>None\<close> when no classification has been set), \<open>x_samp_freq\<close> is \<^verbatim>\<open>self._samp_freq\<close>.
  \<open>raw_images\<close> has axes (row, column, roi); \<open>roi_response\<close> is indexed by roi first.
\<close>

record 'w nwb_extractor =
  x_roi_idx :: "int list"
  raw_images :: "'w ndarray3"
  pixel_masks :: "'w pixel list"
  extimage_dims :: "nat \<times> nat"
  roi_response :: "'w list list"
  x_accepted_list :: "int list option"
  x_samp_freq :: "'w"
  channel_names :: "string list list option"
  raw_movie_file_location :: "string option"

definition roi_idx :: "'w nwb_extractor \<Rightarrow> int list" where
  "roi_idx s = x_roi_idx s"

definition no_rois :: "'w nwb_extractor \<Rightarrow> nat" where
  "no_rois s = length (roi_idx s)"

definition image_dims :: "'w nwb_extractor \<Rightarrow> nat list" where
  "image_dims s = [fst (extimage_dims s), snd (extimage_dims s)]"

subsection \<open>accepted\_list and rejected\_list\<close>

definition accepted_list :: "'w nwb_extractor \<Rightarrow> int list" where
  "accepted_list s =
     (case x_accepted_list s of None \<Rightarrow> py_range (no_rois s) | Some acc \<Rightarrow> acc)"

definition rejected_list :: "'w nwb_extractor \<Rightarrow> int list" where
  "rejected_list s = [a \<leftarrow> py_range (no_rois s). a \<notin> set (accepted_list s)]"

subsection \<open>Resolving requested roi ids to positions\<close>

text \<open>\<^verbatim>\<open>np.where(np.array(i) == self.roi_idx)[0]\<close>: every position of \<open>i\<close> in the id array.\<close>

definition where_eq :: "int \<Rightarrow> int list \<Rightarrow> nat list" where
  "where_eq i ids = [k \<leftarrow> [0..<length ids]. ids ! k = i]"

text \<open>
  The three lines shared by \<^verbatim>\<open>get_traces\<close>, \<^verbatim>\<open>get_roi_locations\<close>, \<^verbatim>\<open>get_pixel_masks\<close> and
  \<^verbatim>\<open>get_image_masks\<close>:
  \<^verbatim>\<open>ROI_idx = [np.where(np.array(i) == self.roi_idx)[0] for i in ROI_ids]\<close>,
  \<^verbatim>\<open>ele = [i for i, j in enumerate(ROI_idx) if j.size == 0]\<close>,
  \<^verbatim>\<open>ROI_idx_ = [j[0] for i, j in enumerate(ROI_idx) if i not in ele]\<close>.
\<close>

definition resolve_roi_ids :: "int list \<Rightarrow> int list \<Rightarrow> nat list" where
  "resolve_roi_ids ids ROI_ids =
     (let ROI_idx = map (\<lambda>i. where_eq i ids) ROI_ids;
          ele = map fst (filter (\<lambda>(i, j). j = []) (enumerate_py ROI_idx))
      in map (\<lambda>(i, j). hd j) (filter (\<lambda>(i, j). i \<notin> set ele) (enumerate_py ROI_idx)))"

definition get_num_rois :: "'w nwb_extractor \<Rightarrow> nat" where
  "get_num_rois s = no_rois s"

definition get_roi_ids :: "'w nwb_extractor \<Rightarrow> int list" where
  "get_roi_ids s = roi_idx s"

subsection \<open>get\_pixel\_masks\<close>

text \<open>
  \<^verbatim>\<open>self.pixel_masks[self.pixel_masks[:, 3] == roiid, :]\<close> for every \<open>roiid\<close> of \<^verbatim>\<open>ROI_idx_\<close>,
  appended in that order. With \<^verbatim>\<open>ROI_ids=None\<close> the loop runs over the roi ids
  (\<^verbatim>\<open>ROI_idx_ = self.roi_idx\<close>); with a list it runs over the resolved positions.
\<close>

definition pixel_roi :: "'w pixel \<Rightarrow> int" where
  "pixel_roi p = snd (snd (snd p))"

definition get_pixel_masks :: "'w nwb_extractor \<Rightarrow> int list option \<Rightarrow> 'w pixel list" where
  "get_pixel_masks s ROI_ids =
     (let ROI_idxs = (case ROI_ids of
                        None \<Rightarrow> roi_idx s
                      | Some req \<Rightarrow> map int (resolve_roi_ids (roi_idx s) req))
      in concat (map (\<lambda>roiid. [p \<leftarrow> pixel_masks s. pixel_roi p = roiid]) ROI_idxs))"

subsection \<open>get\_image\_masks\<close>

text \<open>\<^verbatim>\<open>a.reshape(shape, order='F')\<close>: the first axis varies fastest on both sides; numpy raises
  ValueError when the sizes differ.\<close>

definition reshape_F :: "'w ndarray3 \<Rightarrow> nat \<times> nat \<times> nat \<Rightarrow> py_error + 'w ndarray3" where
  "reshape_F a new =
     (case (shape3 a, new) of ((R, C, D), (R', C', D')) \<Rightarrow>
        if R * C * D \<noteq> R' * C' * D' then Inl (ValueError ''cannot reshape array'')
        else Inr \<lparr>shape3 = (R', C', D'),
                  at3 = (\<lambda>r c d. let f = r + R' * (c + C' * d)
                                   in at3 a (f mod R) ((f div R) mod C) (f div (R * C)))\<rparr>)"

text \<open>\<^verbatim>\<open>a[:, :, idx]\<close> with a list of positions; numpy raises IndexError on a position outside
  the last axis.\<close>

definition take_axis2 :: "'w ndarray3 \<Rightarrow> nat list \<Rightarrow> py_error + 'w ndarray3" where
  "take_axis2 a idx =
     (case shape3 a of (R, C, D) \<Rightarrow>
        if \<exists>k \<in> set idx. D \<le> k then Inl (IndexError ''index is out of bounds for axis 2'')
        else Inr \<lparr>shape3 = (R, C, length idx), at3 = (\<lambda>r c j. at3 a r c (idx ! j))\<rparr>)"

definition get_image_masks :: "'w nwb_extractor \<Rightarrow> int list option \<Rightarrow> py_error + 'w ndarray3" where
  "get_image_masks s ROI_ids =
     (let ROI_idxs = (case ROI_ids of
                        None \<Rightarrow> [0..<get_num_rois s]
                      | Some req \<Rightarrow> resolve_roi_ids (roi_idx s) req)
      in case reshape_F (raw_images s) (fst (extimage_dims s), snd (extimage_dims s), no_rois s) of
           Inl e \<Rightarrow> Inl e
         | Inr a \<Rightarrow> take_axis2 a ROI_idxs)"

subsection \<open>get\_traces\<close>

text \<open>\<open>roi_response\<close> is a list of rows, one per roi; \<^verbatim>\<open>shape[1]\<close> of a numpy array with no
  row is not recoverable from a list of rows and is taken as 0.\<close>

definition get_num_frames :: "'w nwb_extractor \<Rightarrow> nat" where
  "get_num_frames s = (case roi_response s of [] \<Rightarrow> 0 | row # _ \<Rightarrow> length row)"

definition get_traces ::
  "'w nwb_extractor \<Rightarrow> int list option \<Rightarrow> int option \<Rightarrow> int option \<Rightarrow> py_error + 'w list list" where
  "get_traces s ROI_ids start_frame end_frame =
     (let start = (case start_frame of None \<Rightarrow> 0 | Some a \<Rightarrow> a);
          stop = (case end_frame of None \<Rightarrow> int (get_num_frames s) + 1 | Some b \<Rightarrow> b);
          ROI_idxs = (case ROI_ids of
                        None \<Rightarrow> [0..<get_num_rois s]
                      | Some req \<Rightarrow> resolve_roi_ids (roi_idx s) req)
      in if \<exists>k \<in> set ROI_idxs. length (roi_response s) \<le> k
         then Inl (IndexError ''index is out of bounds for axis 0'')
         else Inr (map (\<lambda>k. py_slice (roi_response s ! k) start stop) ROI_idxs))"

subsection \<open>roi\_locs and get\_roi\_locations\<close>

text \<open>\<^verbatim>\<open>np.amax\<close> of a non-empty array.\<close>

definition amax :: "('w::linorder) list \<Rightarrow> 'w" where
  "amax xs = fold max (tl xs) (hd xs)"

text \<open>The coordinates of the plane \<^verbatim>\<open>raw_images[:, :, i]\<close> in the row-major order in which
  \<^verbatim>\<open>np.where\<close> lists them.\<close>

definition plane_coords :: "'w ndarray3 \<Rightarrow> (nat \<times> nat) list" where
  "plane_coords a = (case shape3 a of (R, C, D) \<Rightarrow> List.product [0..<R] [0..<C])"

text \<open>\<^verbatim>\<open>np.where(raw_images[:, :, i] == np.amax(raw_images[:, :, i]))\<close>, as a list of
  (row, column) pairs.\<close>

definition where_max :: "('w::linorder) ndarray3 \<Rightarrow> nat \<Rightarrow> (nat \<times> nat) list" where
  "where_max a i =
     (let mx = amax (map (\<lambda>(r, c). at3 a r c i) (plane_coords a))
      in [(r, c) \<leftarrow> plane_coords a. at3 a r c i = mx])"

text \<open>\<^verbatim>\<open>np.median\<close> of a non-empty list of indices: the middle element of the sorted list, or
  the mean of the two middle elements.\<close>

definition median :: "int list \<Rightarrow> rat" where
  "median xs =
     (let s = sort xs; n = length s
      in if odd n then of_int (s ! (n div 2))
         else (of_int (s ! (n div 2 - 1)) + of_int (s ! (n div 2))) / 2)"

text \<open>Storing a float into an array of \<^verbatim>\<open>dtype='int'\<close> truncates towards zero.\<close>

definition int_cast :: "rat \<Rightarrow> int" where
  "int_cast q = (if 0 \<le> q then \<lfloor>q\<rfloor> else \<lceil>q\<rceil>)"

text \<open>One pass of the loop of \<^verbatim>\<open>roi_locs\<close>: column \<open>i\<close> of the 2 \<times> no\_rois result.\<close>

definition roi_loc :: "('w::linorder) ndarray3 \<Rightarrow> nat \<Rightarrow> py_error + (int \<times> int)" where
  "roi_loc a i =
     (case shape3 a of (R, C, D) \<Rightarrow>
        if D \<le> i then Inl (IndexError ''index is out of bounds for axis 2'')
        else if R = 0 \<or> C = 0 then Inl (ValueError ''zero-size array to reduction operation'')
        else let temp = where_max a i
             in Inr (int_cast (median (map (\<lambda>(r, c). int r) temp)),
                     int_cast (median (map (\<lambda>(r, c). int c) temp))))"

text \<open>Running a list of fallible steps in order, stopping at the first error.\<close>

fun sequence_err :: "(py_error + 'a) list \<Rightarrow> py_error + 'a list" where
  "sequence_err [] = Inr []"
| "sequence_err (x # xs) =
     (case x of
        Inl e \<Rightarrow> Inl e
      | Inr v \<Rightarrow> (case sequence_err xs of Inl e \<Rightarrow> Inl e | Inr vs \<Rightarrow> Inr (v # vs)))"

text \<open>The 2 \<times> no\_rois array \<open>roi_location\<close> as the list of its columns.\<close>

definition roi_locs :: "('w::linorder) nwb_extractor \<Rightarrow> py_error + (int \<times> int) list" where
  "roi_locs s = sequence_err (map (roi_loc (raw_images s)) [0..<no_rois s])"

definition get_roi_locations ::
  "('w::linorder) nwb_extractor \<Rightarrow> int list option \<Rightarrow> py_error + (int \<times> int) list" where
  "get_roi_locations s ROI_ids =
     (case ROI_ids of
        None \<Rightarrow> roi_locs s
      | Some req \<Rightarrow>
          (case roi_locs s of
             Inl e \<Rightarrow> Inl e
           | Inr locs \<Rightarrow>
               let ROI_idxs = resolve_roi_ids (roi_idx s) req
               in if \<exists>k \<in> set ROI_idxs. length locs \<le> k
                  then Inl (IndexError ''index is out of bounds for axis 1'')
                  else Inr (map (\<lambda>k. locs ! k) ROI_idxs)))"

subsection \<open>list.index\<close>

text \<open>\<^verbatim>\<open>xs.index(x)\<close> for an \<open>x\<close> that occurs in \<open>xs\<close>: the first position of \<open>x\<close>.\<close>

definition index_of :: "'a list \<Rightarrow> 'a \<Rightarrow> nat" where
  "index_of xs x = length (takeWhile (\<lambda>y. y \<noteq> x) xs)"

subsection \<open>Example extractors\<close>

text \<open>Three rois with the ids 0, 1, 2 and no classification set.\<close>

definition seg_unset :: "int nwb_extractor" where
  "seg_unset =
     \<lparr>x_roi_idx = [0, 1, 2],
      raw_images = \<lparr>shape3 = (1, 1, 3), at3 = (\<lambda>r c i. 1)\<rparr>,
      pixel_masks = [(0, 0, 1, 0), (0, 0, 1, 1), (0, 0, 1, 2)],
      extimage_dims = (1, 1),
      roi_response = [[0], [0], [0]],
      x_accepted_list = None,
      x_samp_freq = 30,
      channel_names = None,
      raw_movie_file_location = None\<rparr>"

text \<open>The same three rois with a stored classification that names no index of the range.\<close>

definition seg_stray :: "int nwb_extractor" where
  "seg_stray = seg_unset\<lparr>x_accepted_list := Some [7, 7, - 1]\<rparr>"

text \<open>Two rois with the ids 10 and 20, one pixel each, on a 2 \<times> 2 image.\<close>

definition seg_ids :: "int nwb_extractor" where
  "seg_ids =
     \<lparr>x_roi_idx = [10, 20],
      raw_images = \<lparr>shape3 = (2, 2, 2),
                    at3 = (\<lambda>r c i. if (r, c, i) = (0, 0, 0) \<or> (r, c, i) = (1, 1, 1) then 1 else 0)\<rparr>,
      pixel_masks = [(0, 0, 1, 10), (1, 1, 1, 20)],
      extimage_dims = (2, 2),
      roi_response = [[5, 6], [7, 8]],
      x_accepted_list = Some [1],
      x_samp_freq = 30,
      channel_names = None,
      raw_movie_file_location = None\<rparr>"

text \<open>One roi on a 4 \<times> 1 image whose maximum weight is attained in the rows 0 and 3.\<close>

definition seg_tied :: "int nwb_extractor" where
  "seg_tied =
     \<lparr>x_roi_idx = [0],
      raw_images = \<lparr>shape3 = (4, 1, 1), at3 = (\<lambda>r c i. if r = 0 \<or> r = 3 then 1 else 0)\<rparr>,
      pixel_masks = [(0, 0, 1, 0), (3, 0, 1, 0)],
      extimage_dims = (4, 1),
      roi_response = [[0]],
      x_accepted_list = None,
      x_samp_freq = 30,
      channel_names = None,
      raw_movie_file_location = None\<rparr>"

section \<open>Hdf5ImagingExtractor\<close>

text \<open>
  \<^verbatim>\<open>self._standard_video\<close> has the frame axis first. A video with a channels axis
  (\<^verbatim>\<open>self._video.ndim > 3\<close>) is transposed to (frame, row, column, channel); one without is
  (frame, row, column). A frame is therefore a block of two or of three axes.
\<close>

datatype 'px frame = Frame2 "'px list list" | Frame3 "'px list list list"

datatype 'px video = Video3 "'px list list list" | Video4 "'px list list list list"

text \<open>
  \<open>x_num_frames\<close> is \<^verbatim>\<open>self._num_frames\<close>, which \<^verbatim>\<open>__init__\<close> takes from
  \<^verbatim>\<open>get_video_shape(self._video)\<close>. \<^verbatim>\<open>get_frames\<close> also reads \<^verbatim>\<open>self.data_has_channel_axis\<close>
  (no leading underscore, singular), an attribute this class never sets and whose base
  class is not part of the sources: \<open>None\<close> stands for the attribute being absent.
\<close>

record 'px hdf5_extractor =
  x_standard_video :: "'px video"
  x_num_frames :: nat
  data_has_channel_axis :: "bool option"

definition x_data_has_channels_axis :: "'px hdf5_extractor \<Rightarrow> bool" where
  "x_data_has_channels_axis e = (case x_standard_video e of Video4 _ \<Rightarrow> True | Video3 _ \<Rightarrow> False)"

definition video_frames :: "'px hdf5_extractor \<Rightarrow> 'px frame list" where
  "video_frames e =
     (case x_standard_video e of Video4 v \<Rightarrow> map Frame3 v | Video3 v \<Rightarrow> map Frame2 v)"

definition hdf5_get_num_frames :: "'px hdf5_extractor \<Rightarrow> nat" where
  "hdf5_get_num_frames e = x_num_frames e"

text \<open>\<^verbatim>\<open>np.min\<close> of a non-empty list.\<close>

definition amin :: "('w::linorder) list \<Rightarrow> 'w" where
  "amin xs = fold min (tl xs) (hd xs)"

text \<open>The slice bounds that \<^verbatim>\<open>get_frames\<close> computes; \<^verbatim>\<open>np.min\<close> of an empty list raises.\<close>

definition frame_slice :: "'px hdf5_extractor \<Rightarrow> int list option \<Rightarrow> py_error + (int \<times> int)" where
  "frame_slice e frame_idxs =
     (case frame_idxs of
        Some idxs \<Rightarrow>
          if idxs = [] then Inl (ValueError ''zero-size array to reduction operation'')
          else Inr (amin idxs, min (amax idxs + 1) (int (hdf5_get_num_frames e)))
      | None \<Rightarrow> Inr (0, int (hdf5_get_num_frames e)))"

text \<open>An integer index into an axis of length \<open>n\<close>: negative indices count from the end.\<close>

definition py_index :: "nat \<Rightarrow> int \<Rightarrow> nat option" where
  "py_index n i =
     (if 0 \<le> i \<and> i < int n then Some (nat i)
      else if i < 0 \<and> - int n \<le> i then Some (nat (int n + i))
      else None)"

text \<open>What one frame of the result is, for the branch that \<^verbatim>\<open>get_frames\<close> takes: the selected
  channel, the frame as it is, or the frame under a new axis of length 1.\<close>

definition select_channel :: "int \<Rightarrow> 'px frame \<Rightarrow> 'px frame" where
  "select_channel c f =
     (case f of
        Frame3 rs \<Rightarrow> Frame2 (map (map (\<lambda>px. px ! the (py_index (length px) c))) rs)
      | Frame2 rs \<Rightarrow> Frame2 rs)"

definition channel_in_range :: "'px list list list list \<Rightarrow> int \<Rightarrow> bool" where
  "channel_in_range v c =
     (\<forall>f \<in> set v. \<forall>r \<in> set f. \<forall>px \<in> set r. py_index (length px) c \<noteq> None)"

definition new_axis :: "'px frame \<Rightarrow> 'px frame" where
  "new_axis f = (case f of Frame2 rs \<Rightarrow> Frame3 [rs] | Frame3 rs \<Rightarrow> Frame3 rs)"

definition get_frames ::
  "'px hdf5_extractor \<Rightarrow> int list option \<Rightarrow> int option \<Rightarrow> py_error + 'px frame list" where
  "get_frames e frame_idxs channel =
     (case frame_slice e frame_idxs of
        Inl err \<Rightarrow> Inl err
      | Inr (slice_start, slice_stop) \<Rightarrow>
          (case (x_standard_video e, channel) of
             (Video4 v, Some c) \<Rightarrow>
               if channel_in_range v c
               then Inr (map (select_channel c) (py_slice (video_frames e) slice_start slice_stop))
               else Inl (IndexError ''index is out of bounds for axis 3'')
           | (Video4 v, None) \<Rightarrow> Inr (py_slice (video_frames e) slice_start slice_stop)
           | (Video3 v, ch) \<Rightarrow>
               (case data_has_channel_axis e of
                  None \<Rightarrow> Inl (AttributeError ''data_has_channel_axis'')
                | Some b \<Rightarrow>
                    if \<not> b \<and> ch = None
                    then Inr (map new_axis (py_slice (video_frames e) slice_start slice_stop))
                    else Inr (py_slice (video_frames e) slice_start slice_stop))))"

definition frame_view :: "'px hdf5_extractor \<Rightarrow> int option \<Rightarrow> 'px frame \<Rightarrow> 'px frame" where
  "frame_view e channel =
     (case (x_standard_video e, channel) of
        (Video4 v, Some c) \<Rightarrow> select_channel c
      | (Video4 v, None) \<Rightarrow> (\<lambda>f. f)
      | (Video3 v, ch) \<Rightarrow>
          (if data_has_channel_axis e = Some False \<and> ch = None then new_axis else (\<lambda>f. f)))"

text \<open>A video of six frames with one pixel and two channels each.\<close>

definition hdf5_six :: "int hdf5_extractor" where
  "hdf5_six =
     \<lparr>x_standard_video = Video4 [[[[0, 10]]], [[[1, 11]]], [[[2, 12]]], [[[3, 13]]], [[[4, 14]]], [[[5, 15]]]],
      x_num_frames = 6,
      data_has_channel_axis = None\<rparr>"

text \<open>A video of three frames of one pixel and no channels axis, on an object that has the
  attribute.\<close>

definition hdf5_flat :: "int hdf5_extractor" where
  "hdf5_flat =
     \<lparr>x_standard_video = Video3 [[[7]], [[8]], [[9]]],
      x_num_frames = 3,
      data_has_channel_axis = Some False\<rparr>"

section \<open>set\_dynamic\_table\_property\<close>

text \<open>
  The part of a \<^verbatim>\<open>DynamicTable\<close> that the function touches: the id column
  (\<^verbatim>\<open>dynamic_table.id[:]\<close>) and the named columns. \<^verbatim>\<open>add_column\<close> belongs to the table library
  and is taken to append the column it is given.
\<close>

record 'v table_column =
  col_name :: string
  col_description :: string
  col_data :: "'v list"
  col_index :: bool

record 'v dynamic_table =
  table_id :: "int list"
  table_columns :: "'v table_column list"

text \<open>\<^verbatim>\<open>property_name in dynamic_table\<close>.\<close>

definition has_column :: "'v dynamic_table \<Rightarrow> string \<Rightarrow> bool" where
  "has_column dt name = (name \<in> set (map col_name (table_columns dt)))"

definition column_pos :: "'v dynamic_table \<Rightarrow> string \<Rightarrow> nat" where
  "column_pos dt name = index_of (map col_name (table_columns dt)) name"

definition add_column :: "'v dynamic_table \<Rightarrow> string \<Rightarrow> string \<Rightarrow> 'v list \<Rightarrow> bool \<Rightarrow> 'v dynamic_table" where
  "add_column dt name description data index =
     dt\<lparr>table_columns := table_columns dt @
           [\<lparr>col_name = name, col_description = description, col_data = data, col_index = index\<rparr>]\<rparr>"

text \<open>\<^verbatim>\<open>dynamic_table[property_name].data[pos] = value\<close> on an existing column; an assignment
  outside the data raises IndexError.\<close>

definition set_cell :: "'v dynamic_table \<Rightarrow> string \<Rightarrow> nat \<Rightarrow> 'v \<Rightarrow> py_error + 'v dynamic_table" where
  "set_cell dt name pos v =
     (let j = column_pos dt name; c = table_columns dt ! j
      in if pos < length (col_data c)
         then Inr (dt\<lparr>table_columns := (table_columns dt)[j := c\<lparr>col_data := (col_data c)[pos := v]\<rparr>]\<rparr>)
         else Inl (IndexError ''list assignment index out of range''))"

text \<open>The loop \<^verbatim>\<open>for (row_id, value) in zip(row_ids, values)\<close> over an existing column. The table
  is changed in place, so an error leaves the assignments made before it.\<close>

fun assign_rows ::
  "'v dynamic_table \<Rightarrow> string \<Rightarrow> int list \<Rightarrow> (int \<times> 'v) list \<Rightarrow> (py_error \<times> 'v dynamic_table) + 'v dynamic_table" where
  "assign_rows dt name ids [] = Inr dt"
| "assign_rows dt name ids ((row_id, v) # rest) =
     (case set_cell dt name (index_of ids row_id) v of
        Inl e \<Rightarrow> Inl (e, dt)
      | Inr dt' \<Rightarrow> assign_rows dt' name ids rest)"

text \<open>The same loop over the fresh Python list \<^verbatim>\<open>col_data\<close>.\<close>

definition fill_rows :: "int list \<Rightarrow> (int \<times> 'v) list \<Rightarrow> 'v list \<Rightarrow> 'v list" where
  "fill_rows ids pairs data = fold (\<lambda>(row_id, v) d. d[index_of ids row_id := v]) pairs data"

text \<open>
  The two \<^verbatim>\<open>isinstance\<close> checks (TypeError) hold by typing: \<open>row_ids\<close> is a list of integers and
  \<open>property_name\<close> a string.
\<close>

definition set_dynamic_table_property ::
  "'v dynamic_table \<Rightarrow> int list \<Rightarrow> string \<Rightarrow> 'v list \<Rightarrow> bool \<Rightarrow> 'v \<Rightarrow> string
     \<Rightarrow> (py_error \<times> 'v dynamic_table) + 'v dynamic_table" where
  "set_dynamic_table_property dynamic_table row_ids property_name values index default_value description =
     (let ids = table_id dynamic_table
      in if \<exists>i \<in> set row_ids. i \<notin> set ids
         then Inl (ValueError ''ids contains values outside the range of existing ids'', dynamic_table)
         else if length row_ids \<noteq> length values \<and> \<not> index
         then Inl (ValueError ''ids and values should be lists of same size'', dynamic_table)
         else if \<not> index
         then (if has_column dynamic_table property_name
               then assign_rows dynamic_table property_name ids (zip row_ids values)
               else Inr (add_column dynamic_table property_name description
                          (fill_rows ids (zip row_ids values) (replicate (length ids) default_value))
                          index))
         else (if has_column dynamic_table property_name
               then Inl (NotImplementedError, dynamic_table)
               else Inr (add_column dynamic_table property_name description values index)))"

text \<open>The table with the data of one named column replaced, everything else kept.\<close>

definition with_column_data :: "'v dynamic_table \<Rightarrow> string \<Rightarrow> 'v list \<Rightarrow> 'v dynamic_table" where
  "with_column_data dt name data =
     dt\<lparr>table_columns := (table_columns dt)
           [column_pos dt name := (table_columns dt ! column_pos dt name)\<lparr>col_data := data\<rparr>]\<rparr>"

text \<open>A table of three rows with one column.\<close>

definition table_three :: "int dynamic_table" where
  "table_three =
     \<lparr>table_id = [10, 20, 30],
      table_columns = [\<lparr>col_name = ''snr'', col_description = ''d'', col_data = [1, 2, 3],
                        col_index = False\<rparr>]\<rparr>"

section \<open>Hdf5ImagingExtractor.write\_imaging\<close>

text \<open>
  The file system is a map from paths to entries. An HDF5 file is a map from dataset names
  to datasets, a dataset being its data and its attributes.
\<close>

datatype 'c fs_entry = RegularFile 'c | Directory

record ('d, 'a) h5_dataset =
  dset_data :: 'd
  dset_attrs :: "string \<rightharpoonup> 'a"

type_synonym ('d, 'a) h5_file = "string \<rightharpoonup> ('d, 'a) h5_dataset"

type_synonym ('d, 'a) file_system = "string \<rightharpoonup> ('d, 'a) h5_file fs_entry"

text \<open>\<^verbatim>\<open>Path.name\<close> and \<^verbatim>\<open>Path.suffix\<close> of pathlib: the final component, and its part from the
  last dot on, when that dot is neither the first nor the last character of the name.\<close>

definition path_name :: "string \<Rightarrow> string" where
  "path_name p = rev (takeWhile (\<lambda>c. c \<noteq> CHR ''/'') (rev p))"

definition path_suffix :: "string \<Rightarrow> string" where
  "path_suffix p =
     (let name = path_name p;
          ext = takeWhile (\<lambda>c. c \<noteq> CHR ''.'') (rev name);
          i = length name - length ext - 1
      in if CHR ''.'' \<in> set name \<and> 0 < i \<and> i < length name - 1 then drop i name else [])"

text \<open>\<^verbatim>\<open>Path.is_file()\<close>.\<close>

definition is_file :: "('d, 'a) file_system \<Rightarrow> string \<Rightarrow> bool" where
  "is_file fs p = (case fs p of Some (RegularFile c) \<Rightarrow> True | _ \<Rightarrow> False)"

text \<open>
  \<^verbatim>\<open>write_to_h5_dataset_format\<close> lives in \<^verbatim>\<open>extraction_tools\<close>, which is not among the sources:
  it is the parameter \<open>write_to_h5\<close>, which takes the imaging extractor, the dataset path and
  the open file and leaves the file as it is when it returns or raises.
  \<open>get_sampling_frequency\<close> is the accessor of the imaging extractor being written.
  \<^verbatim>\<open>h5py.File(save_path, "w")\<close> creates the file empty; it cannot open a directory.
  The result carries the file system as it is when the call ends.
\<close>

definition write_imaging ::
  "('img \<Rightarrow> string \<Rightarrow> ('d, 'a) h5_file \<Rightarrow> (py_error \<times> ('d, 'a) h5_file) + ('d, 'a) h5_file)
   \<Rightarrow> ('img \<Rightarrow> 'a) \<Rightarrow> ('d, 'a) file_system \<Rightarrow> 'img \<Rightarrow> string \<Rightarrow> bool \<Rightarrow> string
   \<Rightarrow> (py_error \<times> ('d, 'a) file_system) + ('d, 'a) file_system" where
  "write_imaging write_to_h5 get_sampling_frequency fs imaging save_path overwrite mov_field =
     (if path_suffix save_path \<notin> {''.h5'', ''.hdf5''}
      then Inl (AssertionError ''save_path file is not an .hdf5 or .h5 file'', fs)
      else if is_file fs save_path \<and> \<not> overwrite
      then Inl (FileExistsError ''The specified path exists! Use overwrite=True to overwrite it.'', fs)
      else
        let fs1 = (if is_file fs save_path then fs(save_path := None) else fs)
        in (case fs1 save_path of
              Some Directory \<Rightarrow> Inl (OSError ''unable to create file'', fs1)
            | _ \<Rightarrow>
                (case write_to_h5 imaging mov_field Map.empty of
                   Inl (e, f) \<Rightarrow> Inl (e, fs1(save_path \<mapsto> RegularFile f))
                 | Inr f \<Rightarrow>
                     (case f mov_field of
                        None \<Rightarrow> Inl (KeyError mov_field, fs1(save_path \<mapsto> RegularFile f))
                      | Some dset \<Rightarrow>
                          Inr (fs1(save_path \<mapsto> RegularFile
                                 (f(mov_field \<mapsto>
                                    dset\<lparr>dset_attrs := (dset_attrs dset)
                                            (''fr'' \<mapsto> get_sampling_frequency imaging)\<rparr>))))))))"

text \<open>A file system with an HDF5 movie and a raw movie, and a writer that stores one dataset.\<close>

definition fs_two :: "(int list, int) file_system" where
  "fs_two =
     [''/data/movie.h5'' \<mapsto> RegularFile [''mov'' \<mapsto> \<lparr>dset_data = [1, 2, 3], dset_attrs = Map.empty\<rparr>],
      ''/data/movie.dat'' \<mapsto> RegularFile Map.empty]"

definition store_movie ::
  "int list \<Rightarrow> string \<Rightarrow> (int list, int) h5_file
     \<Rightarrow> (py_error \<times> (int list, int) h5_file) + (int list, int) h5_file" where
  "store_movie imaging dataset_path f =
     Inr (f(dataset_path \<mapsto> \<lparr>dset_data = imaging, dset_attrs = Map.empty\<rparr>))"

section \<open>NwbSegmentationExtractor: the container file\<close>

text \<open>
  The container library (pynwb) is not among the sources. What the extractor uses of it is
  modelled as follows. An object of a file has a class and a name
  (\<^verbatim>\<open>type(i).__name__\<close> and \<^verbatim>\<open>i.name\<close>) and, depending on its class, the data the extractor
  reads from it. A plane segmentation is a table: its ids (\<^verbatim>\<open>ps.id.data\<close>), its column
  names (\<^verbatim>\<open>ps.colnames\<close>) and its columns (\<^verbatim>\<open>ps[name].data\<close>).
\<close>

datatype 'w column_data = Array3 "'w ndarray3" | Values "'w list"

record 'w plane_segmentation =
  ps_id :: "int list"
  colnames :: "string list"
  ps_column :: "string \<rightharpoonup> 'w column_data"

datatype 'w nwb_class =
    Device
  | OpticalChannel
  | ImagingPlane "string list"
  | TwoPhotonSeries "string option list"
  | ProcessingModule
  | ImageSegmentation
  | Fluorescence
  | PlaneSegmentation "'w plane_segmentation"
  | RoiResponseSeries
  | TimeSeries

text \<open>The classes are those that the extractor creates or reads. \<open>ImagingPlane\<close> holds the
  names of its optical channels, \<open>TwoPhotonSeries\<close> its \<^verbatim>\<open>external_file\<close>.\<close>

fun type_name :: "'w nwb_class \<Rightarrow> string" where
  "type_name Device = ''Device''"
| "type_name OpticalChannel = ''OpticalChannel''"
| "type_name (ImagingPlane chs) = ''ImagingPlane''"
| "type_name (TwoPhotonSeries ext) = ''TwoPhotonSeries''"
| "type_name ProcessingModule = ''ProcessingModule''"
| "type_name ImageSegmentation = ''ImageSegmentation''"
| "type_name Fluorescence = ''Fluorescence''"
| "type_name (PlaneSegmentation t) = ''PlaneSegmentation''"
| "type_name RoiResponseSeries = ''RoiResponseSeries''"
| "type_name TimeSeries = ''TimeSeries''"

record 'w nwb_obj =
  oclass :: "'w nwb_class"
  oname :: string

text \<open>
  A file is the list \<^verbatim>\<open>nwbfile.all_children()\<close> of its objects. An object added to the file
  is taken to come last in that list, so that the positions found before an addition still
  denote the same objects after it. \<^verbatim>\<open>nwbfile.devices\<close> holds the devices of the file.
\<close>

record 'w nwbfile =
  all_children :: "'w nwb_obj list"

definition add_object :: "'w nwbfile \<Rightarrow> 'w nwb_obj \<Rightarrow> 'w nwbfile" where
  "add_object f ob = f\<lparr>all_children := all_children f @ [ob]\<rparr>"

definition devices :: "'w nwbfile \<Rightarrow> 'w nwb_obj list" where
  "devices f = [ob \<leftarrow> all_children f. type_name (oclass ob) = ''Device'']"

text \<open>\<^verbatim>\<open>[i for i, e in enumerate(names) if e == x]\<close>.\<close>

definition name_matches :: "'a list \<Rightarrow> 'a \<Rightarrow> nat list" where
  "name_matches names x = map fst (filter (\<lambda>(i, e). e = x) (enumerate_py names))"

section \<open>NwbSegmentationExtractor.write\_nwb\<close>

text \<open>
  The local variables of \<^verbatim>\<open>write_nwb\<close> that the structural part of the function binds; \<open>None\<close>
  is a variable that is not bound yet, and reading it raises UnboundLocalError. \<open>modl\<close> is
  the local \<^verbatim>\<open>mod\<close>. An element of \<^verbatim>\<open>optical_channel_list\<close> is a one-element list of a new
  optical channel or an object of the file.
\<close>

datatype 'a py_item = Item 'a | ItemList "'a list"

record 'w write_locals =
  nwbfile :: "'w nwbfile"
  device :: "'w nwb_obj option"
  optical_channel_list :: "'w nwb_obj py_item list option"
  imaging_plane :: "'w nwb_obj option"
  image_series :: "'w nwb_obj option"
  modl :: "'w nwb_obj option"
  img_seg :: "'w nwb_obj option"
  fl :: "'w nwb_obj option"
  ps :: "'w nwb_obj option"

definition locals0 :: "'w nwbfile \<Rightarrow> 'w write_locals" where
  "locals0 f =
     \<lparr>nwbfile = f, device = None, optical_channel_list = None, imaging_plane = None,
      image_series = None, modl = None, img_seg = None, fl = None, ps = None\<rparr>"

text \<open>The keyword arguments of \<^verbatim>\<open>write_nwb\<close> that name objects, and what the function reads from
  the extractor it writes: \<^verbatim>\<open>get_channel_names()\<close> and \<^verbatim>\<open>get_movie_location()\<close>, each possibly
  \<^verbatim>\<open>None\<close>. Descriptions, wavelengths and rates are not tracked.\<close>

record write_args =
  device_name :: string
  optical_channel_name :: "string option"
  imaging_plane_name :: string
  image_series_name :: string
  processing_module_name :: string
  seg_channel_names :: "string list option"
  seg_movie_location :: "string option"

type_synonym 'w step = "'w write_locals \<Rightarrow> (py_error \<times> 'w write_locals) + 'w write_locals"

definition then_step :: "'w step \<Rightarrow> 'w step \<Rightarrow> 'w step" where
  "then_step s1 s2 st = (case s1 st of Inl err \<Rightarrow> Inl err | Inr st' \<Rightarrow> s2 st')"

text \<open>\<^verbatim>\<open>nwbfile.all_children()[i]\<close>.\<close>

definition child_at :: "'w write_locals \<Rightarrow> nat \<Rightarrow> py_error + 'w nwb_obj" where
  "child_at st i =
     (if i < length (all_children (nwbfile st)) then Inr (all_children (nwbfile st) ! i)
      else Inl (IndexError ''list index out of range''))"

text \<open>
  Lines 334 to 337: \<^verbatim>\<open>optical_channel_names\<close>. \<^verbatim>\<open>not optical_channel_name\<close> holds for \<^verbatim>\<open>None\<close> and
  for the empty string; unpacking \<^verbatim>\<open>None\<close> into a list raises TypeError.
\<close>

definition optical_channel_names :: "write_args \<Rightarrow> py_error + string list option" where
  "optical_channel_names args =
     (case optical_channel_name args of
        None \<Rightarrow> Inr (seg_channel_names args)
      | Some n \<Rightarrow>
          if n = [] then Inr (seg_channel_names args)
          else (case seg_channel_names args of
                  None \<Rightarrow> Inl (TypeError ''Value after * must be an iterable, not NoneType'')
                | Some chs \<Rightarrow> Inr (Some (n # chs))))"

text \<open>
  Lines 362 to 367, the device. The second test is \<^verbatim>\<open>len(_device_exist > 1)\<close>: it compares
  the list with 1 before taking the length, which raises TypeError, and it is reached
  whenever the list of matches is not empty.
\<close>

definition device_step :: "write_args \<Rightarrow> string list \<Rightarrow> 'w step" where
  "device_step args nwbchildren_name st =
     (let device_exist = name_matches nwbchildren_name (device_name args)
      in if device_exist = []
         then (let st1 = st\<lparr>nwbfile := add_object (nwbfile st)
                               \<lparr>oclass = Device, oname = device_name args\<rparr>\<rparr>
               in case devices (nwbfile st1) of
                    [] \<Rightarrow> Inl (IndexError ''list index out of range'', st1)
                  | d # ds \<Rightarrow> Inr (st1\<lparr>device := Some d\<rparr>))
         else Inl (TypeError ''> not supported between instances of list and int'', st))"

text \<open>Lines 370 to 386, the optical channel. A name that is \<^verbatim>\<open>None\<close> matches no object.\<close>

definition new_channels :: "string list \<Rightarrow> 'w nwb_obj py_item list" where
  "new_channels vals = map (\<lambda>val. ItemList [\<lparr>oclass = OpticalChannel, oname = val\<rparr>]) vals"

definition optical_channel_step :: "write_args \<Rightarrow> string list option \<Rightarrow> string list \<Rightarrow> 'w step" where
  "optical_channel_step args oc_names nwbchildren_name st =
     (let optical_channel_exist = name_matches (map Some nwbchildren_name) (optical_channel_name args)
      in if optical_channel_exist = []
         then (case oc_names of
                 None \<Rightarrow> Inl (TypeError ''NoneType object is not iterable'', st)
               | Some vals \<Rightarrow> Inr (st\<lparr>optical_channel_list := Some (new_channels vals)\<rparr>))
         else if length optical_channel_exist = 1
         then (case oc_names of
                 None \<Rightarrow> Inl (TypeError ''NoneType object is not subscriptable'', st)
               | Some vals \<Rightarrow>
                   (case child_at st (hd optical_channel_exist) of
                      Inl err \<Rightarrow> Inl (err, st)
                    | Inr ob \<Rightarrow>
                        Inr (st\<lparr>optical_channel_list := Some (new_channels (drop 1 vals) @ [Item ob])\<rparr>)))
         else Inl (Exception ''Multiple Optical Channels exist, provide name of one'', st))"

text \<open>
  Lines 389 to 403, the imaging plane. The arguments of \<^verbatim>\<open>create_imaging_plane\<close> read the
  locals \<^verbatim>\<open>optical_channel_list\<close> and \<^verbatim>\<open>device\<close>; its result is not bound to a variable.
\<close>

definition channel_item_names :: "'w nwb_obj py_item list \<Rightarrow> string list" where
  "channel_item_names items =
     concat (map (\<lambda>it. case it of Item ob \<Rightarrow> [oname ob] | ItemList obs \<Rightarrow> map oname obs) items)"

definition imaging_plane_step :: "write_args \<Rightarrow> string list \<Rightarrow> 'w step" where
  "imaging_plane_step args nwbchildren_name st =
     (let imaging_plane_exist = name_matches nwbchildren_name (imaging_plane_name args)
      in if imaging_plane_exist = []
         then (case optical_channel_list st of
                 None \<Rightarrow> Inl (UnboundLocalError ''optical_channel_list'', st)
               | Some chs \<Rightarrow>
                   (case device st of
                      None \<Rightarrow> Inl (UnboundLocalError ''device'', st)
                    | Some d \<Rightarrow>
                        Inr (st\<lparr>nwbfile := add_object (nwbfile st)
                                   \<lparr>oclass = ImagingPlane (channel_item_names chs),
                                    oname = imaging_plane_name args\<rparr>\<rparr>)))
         else if length imaging_plane_exist = 1
         then (case child_at st (hd imaging_plane_exist) of
                 Inl err \<Rightarrow> Inl (err, st)
               | Inr ob \<Rightarrow> Inr (st\<lparr>imaging_plane := Some ob\<rparr>))
         else Inl (Exception ''Multiple Imaging Planes exist, provide name of one'', st))"

text \<open>Lines 406 to 418, the image series; the new series is not bound to a variable either.\<close>

definition image_series_step :: "write_args \<Rightarrow> string list \<Rightarrow> 'w step" where
  "image_series_step args nwbchildren_name st =
     (let image_series_exist = name_matches nwbchildren_name (image_series_name args)
      in if image_series_exist = []
         then Inr (st\<lparr>nwbfile := add_object (nwbfile st)
                        \<lparr>oclass = TwoPhotonSeries [seg_movie_location args],
                         oname = image_series_name args\<rparr>\<rparr>)
         else if length image_series_exist = 1
         then (case child_at st (hd image_series_exist) of
                 Inl err \<Rightarrow> Inl (err, st)
               | Inr ob \<Rightarrow> Inr (st\<lparr>image_series := Some ob\<rparr>))
         else Inl (Exception ''Multiple Imaging Series exist, provide name of one'', st))"

text \<open>Lines 422 to 430, the processing module.\<close>

definition processing_module_step :: "write_args \<Rightarrow> string list \<Rightarrow> 'w step" where
  "processing_module_step args nwbchildren_name st =
     (let ophys_module_exist = name_matches nwbchildren_name (processing_module_name args)
      in if ophys_module_exist = []
         then (let m = \<lparr>oclass = ProcessingModule, oname = processing_module_name args\<rparr>
               in Inr (st\<lparr>nwbfile := add_object (nwbfile st) m, modl := Some m\<rparr>))
         else if length ophys_module_exist = 1
         then (case child_at st (hd ophys_module_exist) of
                 Inl err \<Rightarrow> Inl (err, st)
               | Inr ob \<Rightarrow> Inr (st\<lparr>modl := Some ob\<rparr>))
         else Inl (Exception ''Multiple Ophys modules exist, provide name of one'', st))"

text \<open>
  Lines 433 to 448: the image segmentation and the fluorescence interface, searched under
  their class names as object names. \<^verbatim>\<open>mod.add_data_interface\<close> is a method of a processing
  module only.
\<close>

definition add_data_interface :: "'w nwb_obj \<Rightarrow> 'w write_locals \<Rightarrow> (py_error \<times> 'w write_locals) + 'w write_locals" where
  "add_data_interface ob st =
     (case modl st of
        None \<Rightarrow> Inl (UnboundLocalError ''mod'', st)
      | Some m \<Rightarrow>
          if type_name (oclass m) = ''ProcessingModule''
          then Inr (st\<lparr>nwbfile := add_object (nwbfile st) ob\<rparr>)
          else Inl (AttributeError ''add_data_interface'', st))"

definition image_segmentation_step :: "string list \<Rightarrow> 'w step" where
  "image_segmentation_step nwbchildren_name st =
     (let image_segmentation_exist = name_matches nwbchildren_name ''ImageSegmentation''
      in if image_segmentation_exist = []
         then (let seg = \<lparr>oclass = ImageSegmentation, oname = ''ImageSegmentation''\<rparr>
               in add_data_interface seg (st\<lparr>img_seg := Some seg\<rparr>))
         else (case child_at st (hd image_segmentation_exist) of
                 Inl err \<Rightarrow> Inl (err, st)
               | Inr ob \<Rightarrow> Inr (st\<lparr>img_seg := Some ob\<rparr>)))"

definition fluorescence_step :: "string list \<Rightarrow> 'w step" where
  "fluorescence_step nwbchildren_name st =
     (let fluorescence_module_exist = name_matches nwbchildren_name ''Fluorescence''
      in if fluorescence_module_exist = []
         then (let f = \<lparr>oclass = Fluorescence, oname = ''Fluorescence''\<rparr>
               in add_data_interface f (st\<lparr>fl := Some f\<rparr>))
         else (case child_at st (hd fluorescence_module_exist) of
                 Inl err \<Rightarrow> Inl (err, st)
               | Inr ob \<Rightarrow> Inr (st\<lparr>fl := Some ob\<rparr>)))"

text \<open>
  \<^verbatim>\<open>img_seg.create_plane_segmentation('ROIs', imaging_plane, 'PlaneSegmentation', image_series)\<close>:
  a method of an image segmentation only; its arguments read the locals \<^verbatim>\<open>imaging_plane\<close> and
  \<^verbatim>\<open>image_series\<close>. The new table is empty and is named \<^verbatim>\<open>PlaneSegmentation\<close>.
\<close>

definition create_plane_segmentation :: "'w step" where
  "create_plane_segmentation st =
     (case img_seg st of
        None \<Rightarrow> Inl (UnboundLocalError ''img_seg'', st)
      | Some seg \<Rightarrow>
          if type_name (oclass seg) \<noteq> ''ImageSegmentation''
          then Inl (AttributeError ''create_plane_segmentation'', st)
          else (case imaging_plane st of
                  None \<Rightarrow> Inl (UnboundLocalError ''imaging_plane'', st)
                | Some pl \<Rightarrow>
                    (case image_series st of
                       None \<Rightarrow> Inl (UnboundLocalError ''image_series'', st)
                     | Some ser \<Rightarrow>
                         (let t = \<lparr>oclass = PlaneSegmentation
                                              \<lparr>ps_id = [], colnames = [], ps_column = Map.empty\<rparr>,
                                    oname = ''PlaneSegmentation''\<rparr>
                          in Inr (st\<lparr>nwbfile := add_object (nwbfile st) t, ps := Some t\<rparr>)))))"

text \<open>Lines 451 to 457, the plane segmentation.\<close>

definition plane_segmentation_step :: "string list \<Rightarrow> 'w step" where
  "plane_segmentation_step nwbchildren_name st =
     (let plane_segmentation_exist = name_matches nwbchildren_name ''PlaneSegmentation''
      in if plane_segmentation_exist = []
         then create_plane_segmentation st
         else (case child_at st (hd plane_segmentation_exist) of
                 Inl err \<Rightarrow> Inl (err, st)
               | Inr ob \<Rightarrow> Inr (st\<lparr>ps := Some ob\<rparr>)))"

text \<open>
  Lines 353 to 457, the branch for a file that exists. The names are read once, before the
  first step, and every step searches that list.
\<close>

definition write_nwb_existing :: "write_args \<Rightarrow> string list option \<Rightarrow> 'w step" where
  "write_nwb_existing args oc_names st =
     (let nwbchildren_name = map oname (all_children (nwbfile st))
      in then_step (device_step args nwbchildren_name)
        (then_step (optical_channel_step args oc_names nwbchildren_name)
        (then_step (imaging_plane_step args nwbchildren_name)
        (then_step (image_series_step args nwbchildren_name)
        (then_step (processing_module_step args nwbchildren_name)
        (then_step (image_segmentation_step nwbchildren_name)
        (then_step (fluorescence_step nwbchildren_name)
                   (plane_segmentation_step nwbchildren_name))))))) st)"

text \<open>
  Lines 460 to 494, the branch for a new file. \<^verbatim>\<open>NWBFile(**kwargs)\<close> and
  \<^verbatim>\<open>OpticalChannel(optical_channel_name, ...)\<close> are taken to succeed. The call of
  \<^verbatim>\<open>create_imaging_plane\<close> reads the local \<^verbatim>\<open>device\<close>, which only the other branch assigns.
\<close>

definition write_nwb_fresh :: "write_args \<Rightarrow> 'w step" where
  "write_nwb_fresh args st =
     (let st1 = st\<lparr>nwbfile := add_object (nwbfile st) \<lparr>oclass = Device, oname = device_name args\<rparr>\<rparr>;
          optical_channel =
            (\<lparr>oclass = OpticalChannel,
              oname = (case optical_channel_name args of None \<Rightarrow> [] | Some n \<Rightarrow> n)\<rparr>
             :: 'w nwb_obj)
      in case device st1 of
           None \<Rightarrow> Inl (UnboundLocalError ''device'', st1)
         | Some d \<Rightarrow>
             (let pl = \<lparr>oclass = ImagingPlane [oname optical_channel], oname = imaging_plane_name args\<rparr>;
                  ser = \<lparr>oclass = TwoPhotonSeries [seg_movie_location args],
                         oname = image_series_name args\<rparr>;
                  m = \<lparr>oclass = ProcessingModule, oname = processing_module_name args\<rparr>;
                  seg = \<lparr>oclass = ImageSegmentation, oname = ''ImageSegmentation''\<rparr>;
                  f = \<lparr>oclass = Fluorescence, oname = ''Fluorescence''\<rparr>;
                  st2 = st1\<lparr>nwbfile := add_object (add_object (add_object (nwbfile st1) pl) ser) m,
                            imaging_plane := Some pl, image_series := Some ser, modl := Some m\<rparr>
              in then_step (add_data_interface seg)
                   (then_step (add_data_interface f) create_plane_segmentation)
                   (st2\<lparr>img_seg := Some seg, fl := Some f\<rparr>)))"

text \<open>\<^verbatim>\<open>os.path.splitext(filename)[-1].lower()\<close>: the part of the last component from its last
  dot on, leading dots of the component not counting, in lower case.\<close>

definition lower_char :: "char \<Rightarrow> char" where
  "lower_char c =
     (case map_of (zip ''ABCDEFGHIJKLMNOPQRSTUVWXYZ'' ''abcdefghijklmnopqrstuvwxyz'') c of
        Some l \<Rightarrow> l
      | None \<Rightarrow> c)"

definition splitext_ext :: "string \<Rightarrow> string" where
  "splitext_ext p =
     (let name = dropWhile (\<lambda>c. c = CHR ''.'') (path_name p)
      in if CHR ''.'' \<in> set name
         then CHR ''.'' # rev (takeWhile (\<lambda>c. c \<noteq> CHR ''.'') (rev name))
         else [])"

text \<open>
  \<^verbatim>\<open>write_nwb\<close>. The files are a map from paths to the containers they hold. \<open>rest\<close> stands
  for the lines 496 to 592, which fill the table, add the traces and write the file: they
  run on the locals that the structural part leaves, and only when that part returns.
\<close>

definition write_nwb ::
  "('w write_locals \<Rightarrow> py_error + 'r) \<Rightarrow> (string \<rightharpoonup> 'w nwbfile) \<Rightarrow> string \<Rightarrow> write_args
     \<Rightarrow> py_error + 'r" where
  "write_nwb rest files filename args =
     (case optical_channel_names args of
        Inl err \<Rightarrow> Inl err
      | Inr oc_names \<Rightarrow>
          if map lower_char (splitext_ext filename) \<noteq> ''.nwb''
          then Inl (Exception ''Wrong filename'')
          else (case (case files filename of
                        Some f \<Rightarrow> write_nwb_existing args oc_names (locals0 f)
                      | None \<Rightarrow> write_nwb_fresh args (locals0 \<lparr>all_children = []\<rparr>)) of
                  Inl (err, st) \<Rightarrow> Inl err
                | Inr st \<Rightarrow> rest st))"

text \<open>The default arguments of \<^verbatim>\<open>write_nwb\<close>, for an extractor with one channel and a movie.\<close>

definition default_args :: write_args where
  "default_args =
     \<lparr>device_name = ''MyDevice'', optical_channel_name = None,
      imaging_plane_name = ''MyImagingPlane'', image_series_name = ''MyTwoPhotonSeries'',
      processing_module_name = ''Ophys'', seg_channel_names = Some [''green''],
      seg_movie_location = Some ''/data/movie.tif''\<rparr>"

text \<open>A file that holds one device named as the default device, and one that holds two
  imaging planes named as the default imaging plane.\<close>

definition file_one_device :: "int nwbfile" where
  "file_one_device = \<lparr>all_children = [\<lparr>oclass = Device, oname = ''MyDevice''\<rparr>]\<rparr>"

definition file_two_planes :: "int nwbfile" where
  "file_two_planes =
     \<lparr>all_children = [\<lparr>oclass = ImagingPlane [''green''], oname = ''MyImagingPlane''\<rparr>,
                       \<lparr>oclass = ImagingPlane [''red''], oname = ''MyImagingPlane''\<rparr>]\<rparr>"

definition file_one_plane :: "int nwbfile" where
  "file_one_plane =
     \<lparr>all_children = [\<lparr>oclass = ImagingPlane [''green''], oname = ''MyImagingPlane''\<rparr>]\<rparr>"

section \<open>NwbSegmentationExtractor.\_\_init\_\_\<close>


definition nwbchildren_name :: "'w nwbfile \<Rightarrow> string list" where
  "nwbchildren_name f = map oname (all_children f)"






definition and_then :: "py_error + 'a \<Rightarrow> ('a \<Rightarrow> py_error + 'b) \<Rightarrow> py_error + 'b" where
  "and_then r k = (case r of Inl err \<Rightarrow> Inl err | Inr v \<Rightarrow> k v)"























section \<open>VideoStructure\<close>

text \<open>
  \<^verbatim>\<open>VideoStructure\<close> is defined in \<^verbatim>\<open>roiextractors.extraction_tools\<close>, which is not among the
  sources; only its tests are (\<^verbatim>\<open>tests/test_internals/test_extraction_tools.py\<close>). The
  definitions of this section follow the specification, and are run on the tests below.
\<close>

text \<open>Modelled from the spec: the fields of \<^verbatim>\<open>VideoStructure\<close>, missing from the sources, named
  as the keyword arguments of the tests name them.\<close>

record video_structure =
  rows :: int
  columns :: int
  num_channels :: int
  rows_axis :: int
  columns_axis :: int
  num_channels_axis :: int
  frame_axis :: int

text \<open>Modelled from the spec: the check of \<^verbatim>\<open>VideoStructure\<close>, missing from the sources. The
  four axis indices are integers in [0, 3] and pairwise distinct.\<close>

definition valid_axes :: "int \<Rightarrow> int \<Rightarrow> int \<Rightarrow> int \<Rightarrow> bool" where
  "valid_axes ra ca cha fa =
     (distinct [ra, ca, cha, fa] \<and> (\<forall>a \<in> set [ra, ca, cha, fa]. 0 \<le> a \<and> a \<le> 3))"

text \<open>Modelled from the spec: the constructor of \<^verbatim>\<open>VideoStructure\<close>, missing from the sources.
  A violated permutation fails with the configuration error, which identifies the tuple of
  axis values (rows axis, columns axis, channels axis, frame axis); the tests expect it as a
  ValueError whose message starts with \<^verbatim>\<open>Invalid structure:\<close> and lists these values.\<close>

definition VideoStructure ::
  "int \<Rightarrow> int \<Rightarrow> int \<Rightarrow> int \<Rightarrow> int \<Rightarrow> int \<Rightarrow> int \<Rightarrow> py_error + video_structure" where
  "VideoStructure r c ch ra ca cha fa =
     (if valid_axes ra ca cha fa
      then Inr \<lparr>rows = r, columns = c, num_channels = ch, rows_axis = ra, columns_axis = ca,
                num_channels_axis = cha, frame_axis = fa\<rparr>
      else Inl (ConfigurationError (ra, ca, cha, fa)))"

text \<open>Modelled from the spec: \<^verbatim>\<open>build_video_shape\<close>, missing from the sources. It inserts the
  number of frames at the frame axis and the other three sizes at their axes; a slot that
  nothing is put into stays \<open>None\<close>.\<close>

definition build_video_shape :: "video_structure \<Rightarrow> int \<Rightarrow> int option list" where
  "build_video_shape vs n_frames =
     [None, None, None, None]
       [nat (frame_axis vs) := Some n_frames,
        nat (rows_axis vs) := Some (rows vs),
        nat (columns_axis vs) := Some (columns vs),
        nat (num_channels_axis vs) := Some (num_channels vs)]"

text \<open>Modelled from the spec: \<^verbatim>\<open>frame_shape\<close>, missing from the sources. Rows, columns and
  channels at their axis positions, the frame axis left out.\<close>

definition frame_shape :: "video_structure \<Rightarrow> int option list" where
  "frame_shape vs =
     (let slots = [None, None, None, None]
                    [nat (rows_axis vs) := Some (rows vs),
                     nat (columns_axis vs) := Some (columns vs),
                     nat (num_channels_axis vs) := Some (num_channels vs)]
      in take (nat (frame_axis vs)) slots @ drop (Suc (nat (frame_axis vs))) slots)"

text \<open>Modelled from the spec: \<^verbatim>\<open>number_of_pixels_per_frame\<close>, missing from the sources.\<close>

definition number_of_pixels_per_frame :: "video_structure \<Rightarrow> int" where
  "number_of_pixels_per_frame vs = rows vs * columns vs * num_channels vs"

section \<open>Properties\<close>

lemma set_py_range: "set (py_range n) = {i. 0 \<le> i \<and> i < int n}"
proof -
  have "i \<in> int ` {0..<n}" if "0 \<le> i" "i < int n" for i :: int
    using that by (intro image_eqI [where x = "nat i"]) auto
  then show ?thesis unfolding py_range_def by auto
qed

lemma distinct_py_range: "distinct (py_range n)"
  unfolding py_range_def by (simp add: distinct_map inj_on_def)

text \<open>
  Claim C5, as amended. The accepted and the rejected list never overlap and leave no index
  of \<open>range(no_rois)\<close> out; the rejected list is the indices of that range that are not
  accepted, in increasing order and each once; with no classification set the accepted list
  is the whole range and the rejected list is empty. The accepted list is returned as it is
  stored, so the two lists together are exactly the range if and only if the stored list
  holds indices of the range only.
\<close>

theorem accepted_rejected_partition:
  "set (accepted_list s) \<inter> set (rejected_list s) = {}
   \<and> set (py_range (no_rois s)) \<subseteq> set (accepted_list s) \<union> set (rejected_list s)
   \<and> set (rejected_list s) = set (py_range (no_rois s)) - set (accepted_list s)
   \<and> distinct (rejected_list s) \<and> sorted (rejected_list s)
   \<and> (x_accepted_list s = None \<longrightarrow>
        accepted_list s = py_range (no_rois s) \<and> rejected_list s = [])
   \<and> (\<forall>acc. x_accepted_list s = Some acc \<longrightarrow> accepted_list s = acc)
   \<and> (set (accepted_list s) \<union> set (rejected_list s) = set (py_range (no_rois s))
        \<longleftrightarrow> set (accepted_list s) \<subseteq> set (py_range (no_rois s)))"
proof -
  have srt: "sorted (py_range n)" for n
    unfolding py_range_def by (simp add: sorted_map)
  have "sorted (rejected_list s)"
    unfolding rejected_list_def by (rule sorted_wrt_filter [OF srt])
  moreover have "set (accepted_list s) \<inter> set (rejected_list s) = {}"
    unfolding rejected_list_def by auto
  moreover have "set (rejected_list s) = set (py_range (no_rois s)) - set (accepted_list s)"
    unfolding rejected_list_def by auto
  moreover have "distinct (rejected_list s)"
    unfolding rejected_list_def by (simp add: distinct_py_range)
  moreover have "x_accepted_list s = None \<longrightarrow>
        accepted_list s = py_range (no_rois s) \<and> rejected_list s = []"
    unfolding rejected_list_def by (simp add: accepted_list_def)
  moreover have "\<forall>acc. x_accepted_list s = Some acc \<longrightarrow> accepted_list s = acc"
    by (simp add: accepted_list_def)
  ultimately show ?thesis by auto
qed

theorem accepted_rejected_partition_witness:
  "x_accepted_list seg_unset = None
   \<and> accepted_list seg_unset = [0, 1, 2] \<and> rejected_list seg_unset = []
   \<and> set (accepted_list seg_unset) \<union> set (rejected_list seg_unset) = set (py_range (no_rois seg_unset))
   \<and> x_accepted_list seg_ids = Some [1]
   \<and> accepted_list seg_ids = [1] \<and> rejected_list seg_ids = [0]
   \<and> set (accepted_list seg_ids) \<subseteq> set (py_range (no_rois seg_ids))
   \<and> set (accepted_list seg_ids) \<union> set (rejected_list seg_ids) = set (py_range (no_rois seg_ids))"
proof -
  have a: "x_accepted_list seg_unset = None" by (simp add: seg_unset_def)
  have b: "x_accepted_list seg_ids = Some [1]" by (simp add: seg_ids_def)
  have n: "py_range (no_rois seg_unset) = [0, 1, 2]" "py_range (no_rois seg_ids) = [0, 1]"
    by (simp_all add: seg_unset_def seg_ids_def no_rois_def roi_idx_def py_range_def upt_rec)
  note u = accepted_rejected_partition [of seg_unset]
  note i = accepted_rejected_partition [of seg_ids]
  from u a have u1: "accepted_list seg_unset = [0, 1, 2]" "rejected_list seg_unset = []"
    unfolding n by simp_all
  from i b have i1: "accepted_list seg_ids = [1]" by simp
  then have i2: "set (accepted_list seg_ids) \<subseteq> set (py_range (no_rois seg_ids))"
    unfolding n by simp
  with i have i3: "set (accepted_list seg_ids) \<union> set (rejected_list seg_ids)
      = set (py_range (no_rois seg_ids))" by blast
  have i4: "rejected_list seg_ids = [0]"
    unfolding rejected_list_def i1 n by simp
  show ?thesis using a b u1 i1 i2 i3 i4 unfolding n by simp
qed

text \<open>
  Claim C5 as stated fails for a stored classification outside the range: with three rois
  and the stored list [7, 7, -1], 7 is accepted and is no index of \<open>range(3)\<close>, while the
  rejected list is the whole range.
\<close>

theorem accepted_list_outside_range_counterexample:
  "no_rois seg_stray = 3
   \<and> accepted_list seg_stray = [7, 7, - 1]
   \<and> rejected_list seg_stray = [0, 1, 2]
   \<and> py_range (no_rois seg_stray) = [0, 1, 2]
   \<and> 7 \<in> set (accepted_list seg_stray) \<union> set (rejected_list seg_stray)
   \<and> 7 \<notin> set (py_range (no_rois seg_stray))"
  by (simp add: seg_stray_def seg_unset_def accepted_list_def rejected_list_def no_rois_def
      roi_idx_def py_range_def upt_rec)

subsection \<open>Requested ids resolve to the first positions of the known ones\<close>

lemma where_eq_Nil: "where_eq i ids = [] \<longleftrightarrow> i \<notin> set ids"
  unfolding where_eq_def by (auto simp: filter_empty_conv in_set_conv_nth)

lemma where_eq_Cons: "where_eq i (x # ids) = (if x = i then [0] else []) @ map Suc (where_eq i ids)"
  unfolding where_eq_def
  by (simp add: upt_rec[of 0] filter_map o_def map_Suc_upt[symmetric] del: upt_Suc)

lemma hd_where_eq: "i \<in> set ids \<Longrightarrow> hd (where_eq i ids) = index_of ids i"
proof (induction ids)
  case Nil then show ?case by simp
next
  case (Cons x ids)
  show ?case
  proof (cases "x = i")
    case True then show ?thesis by (simp add: where_eq_Cons index_of_def)
  next
    case False
    with Cons have "i \<in> set ids" by simp
    then have "where_eq i ids \<noteq> []" by (simp add: where_eq_Nil)
    with Cons False \<open>i \<in> set ids\<close> show ?thesis
      by (simp add: where_eq_Cons index_of_def hd_map)
  qed
qed

lemma enum_filter_nonempty:
  "map (\<lambda>(i, j). hd j) (filter (\<lambda>(i, j). i \<notin> set (map fst (filter (\<lambda>(i, j). j = []) (enumerate_py xs)))) (enumerate_py xs))
   = map hd (filter (\<lambda>j. j \<noteq> []) xs)"
proof -
  have mem: "\<And>i j. (i, j) \<in> set (enumerate_py xs) \<Longrightarrow> i < length xs \<and> j = xs ! i"
    unfolding enumerate_py_def by (auto simp: set_zip)
  have "filter (\<lambda>(i, j). i \<notin> set (map fst (filter (\<lambda>(i, j). j = []) (enumerate_py xs)))) (enumerate_py xs)
        = filter (\<lambda>(i, j). j \<noteq> []) (enumerate_py xs)"
  proof (rule filter_cong[OF refl])
    fix p assume p: "p \<in> set (enumerate_py xs)"
    obtain i j where [simp]: "p = (i, j)" by (cases p)
    from p mem have j: "j = xs ! i" by auto
    have "i \<in> set (map fst (filter (\<lambda>(i, j). j = []) (enumerate_py xs))) \<longleftrightarrow> j = []"
    proof
      assume "i \<in> set (map fst (filter (\<lambda>(i, j). j = []) (enumerate_py xs)))"
      then obtain j' where "(i, j') \<in> set (enumerate_py xs)" "j' = []" by auto
      with mem [of i j'] j show "j = []" by simp
    next
      assume "j = []"
      with p have "(i, j) \<in> set (filter (\<lambda>(i, j). j = []) (enumerate_py xs))" by simp
      then have "fst (i, j) \<in> fst ` set (filter (\<lambda>(i, j). j = []) (enumerate_py xs))"
        by (rule imageI)
      then show "i \<in> set (map fst (filter (\<lambda>(i, j). j = []) (enumerate_py xs)))" by simp
    qed
    then show "(case p of (i, j) \<Rightarrow> i \<notin> set (map fst (filter (\<lambda>(i, j). j = []) (enumerate_py xs)))) = (case p of (i, j) \<Rightarrow> j \<noteq> [])"
      by simp
  qed
  moreover have "map (\<lambda>(i, j). hd j) (filter (\<lambda>(i, j). j \<noteq> []) (enumerate_py xs))
     = map hd (filter (\<lambda>j. j \<noteq> []) (map snd (enumerate_py xs)))"
    by (simp add: filter_map o_def case_prod_unfold)
  moreover have "map snd (enumerate_py xs) = xs"
    unfolding enumerate_py_def by simp
  ultimately show ?thesis by simp
qed

lemma resolve_roi_ids_eq:
  "resolve_roi_ids ids req = map (index_of ids) (filter (\<lambda>i. i \<in> set ids) req)"
proof -
  have "resolve_roi_ids ids req = map hd (filter (\<lambda>j. j \<noteq> []) (map (\<lambda>i. where_eq i ids) req))"
    unfolding resolve_roi_ids_def Let_def by (rule enum_filter_nonempty)
  also have "\<dots> = map (\<lambda>i. hd (where_eq i ids)) (filter (\<lambda>i. i \<in> set ids) req)"
    by (simp add: filter_map o_def where_eq_Nil)
  also have "\<dots> = map (index_of ids) (filter (\<lambda>i. i \<in> set ids) req)"
    by (rule map_cong) (auto simp: hd_where_eq)
  finally show ?thesis .
qed

subsection \<open>Unknown ids are dropped; the pixel-mask accessor compares positions with ids\<close>

lemma resolve_roi_ids_drop_unknown:
  "resolve_roi_ids ids (filter (\<lambda>i. i \<in> set ids) req) = resolve_roi_ids ids req"
  by (simp add: resolve_roi_ids_eq)

lemma get_image_masks_drop_unknown:
  "get_image_masks s (Some (filter (\<lambda>i. i \<in> set (roi_idx s)) req)) = get_image_masks s (Some req)"
  by (simp add: get_image_masks_def resolve_roi_ids_drop_unknown)

lemma get_traces_drop_unknown:
  "get_traces s (Some (filter (\<lambda>i. i \<in> set (roi_idx s)) req)) a b = get_traces s (Some req) a b"
  by (simp add: get_traces_def resolve_roi_ids_drop_unknown)

lemma get_roi_locations_drop_unknown:
  "get_roi_locations s (Some (filter (\<lambda>i. i \<in> set (roi_idx s)) req)) = get_roi_locations s (Some req)"
  by (cases "roi_locs s") (simp_all add: get_roi_locations_def resolve_roi_ids_drop_unknown)

lemma get_pixel_masks_Some:
  "get_pixel_masks s (Some req) =
     concat (map (\<lambda>i. [p \<leftarrow> pixel_masks s. pixel_roi p = int (index_of (roi_idx s) i)])
                 (filter (\<lambda>i. i \<in> set (roi_idx s)) req))"
  by (simp add: get_pixel_masks_def resolve_roi_ids_eq o_def)

text \<open>
  Claim C6. The claim says that a request covers exactly the requested ids that exist. With
  the roi ids 10 and 20, \<^verbatim>\<open>get_pixel_masks\<close> without a request returns the rows of both rois,
  but the request \<open>[20]\<close> is resolved to the position 1, the rows are selected by comparing
  their id column with that position, and the row of roi 20 is lost; the unknown id 99 is
  dropped without an error.
\<close>

theorem get_pixel_masks_position_for_id:
  "get_roi_ids seg_ids = [10, 20]
   \<and> get_pixel_masks seg_ids None = [(0, 0, 1, 10), (1, 1, 1, 20)]
   \<and> resolve_roi_ids (roi_idx seg_ids) [20, 99] = [1]
   \<and> get_pixel_masks seg_ids (Some [20]) = []
   \<and> get_pixel_masks seg_ids (Some [20, 99]) = []"
  by (simp add: get_pixel_masks_def resolve_roi_ids_eq index_of_def seg_ids_def roi_idx_def
      pixel_roi_def get_roi_ids_def)

subsection \<open>The roi locations\<close>

lemma amax_eq_Max: "xs \<noteq> [] \<Longrightarrow> amax xs = Max (set xs)"
  unfolding amax_def by (cases xs) (simp_all add: Max.set_eq_fold [symmetric])

lemma set_plane_coords:
  "shape3 a = (R, C, D) \<Longrightarrow> set (plane_coords a) = {(r, c). r < R \<and> c < C}"
  unfolding plane_coords_def by auto

lemma set_where_max:
  assumes "shape3 a = (R, C, D)" "0 < R" "0 < C"
  shows "set (where_max a i) =
           {(r, c). r < R \<and> c < C \<and> (\<forall>r' < R. \<forall>c' < C. at3 a r' c' i \<le> at3 a r c i)}"
proof -
  let ?vals = "map (\<lambda>(r, c). at3 a r c i) (plane_coords a)"
  have "length ?vals = R * C"
    using assms(1) by (simp add: plane_coords_def)
  with assms have ne: "?vals \<noteq> []" by auto
  have vals: "set ?vals = {at3 a r c i | r c. r < R \<and> c < C}"
    using set_plane_coords [OF assms(1)] by (auto simp: image_iff)
  have mx: "amax ?vals = Max (set ?vals)" by (rule amax_eq_Max [OF ne])
  have fin: "finite (set ?vals)" by simp
  have nemp: "set ?vals \<noteq> {}" using ne by simp
  have key: "at3 a r c i = Max (set ?vals) \<longleftrightarrow> (\<forall>r' < R. \<forall>c' < C. at3 a r' c' i \<le> at3 a r c i)"
    if "r < R" "c < C" for r c
  proof
    assume eq: "at3 a r c i = Max (set ?vals)"
    show "\<forall>r' < R. \<forall>c' < C. at3 a r' c' i \<le> at3 a r c i"
    proof (intro allI impI)
      fix r' c' assume "r' < R" "c' < C"
      then have "at3 a r' c' i \<in> set ?vals" unfolding vals by blast
      then show "at3 a r' c' i \<le> at3 a r c i" unfolding eq by (rule Max_ge [OF fin])
    qed
  next
    assume le: "\<forall>r' < R. \<forall>c' < C. at3 a r' c' i \<le> at3 a r c i"
    have mem: "at3 a r c i \<in> set ?vals" unfolding vals using that by blast
    have "\<And>v. v \<in> set ?vals \<Longrightarrow> v \<le> at3 a r c i" unfolding vals using le by blast
    then show "at3 a r c i = Max (set ?vals)"
      using mem fin by (intro Max_eqI [symmetric]) auto
  qed
  show ?thesis
    unfolding where_max_def Let_def mx
    using key set_plane_coords [OF assms(1)] by auto
qed

lemma where_max_nonempty:
  assumes "shape3 a = (R, C, D)" "0 < R" "0 < C"
  shows "where_max a i \<noteq> []"
proof -
  let ?vals = "map (\<lambda>(r, c). at3 a r c i) (plane_coords a)"
  have "length ?vals = R * C"
    using assms(1) by (simp add: plane_coords_def)
  with assms have ne: "?vals \<noteq> []" by auto
  then have "Max (set ?vals) \<in> set ?vals" by (intro Max_in) auto
  then obtain p where p: "p \<in> set (plane_coords a)" "(case p of (r, c) \<Rightarrow> at3 a r c i) = Max (set ?vals)"
    by auto
  then have "p \<in> set (where_max a i)"
    unfolding where_max_def Let_def amax_eq_Max [OF ne] by (cases p) auto
  then show ?thesis by auto
qed

lemma sequence_err_map_Inr:
  "(\<And>x. x \<in> set xs \<Longrightarrow> f x = Inr (g x)) \<Longrightarrow> sequence_err (map f xs) = Inr (map g xs)"
  by (induction xs) simp_all

lemma median_nonneg:
  assumes "xs \<noteq> []" "\<forall>x \<in> set xs. 0 \<le> x"
  shows "0 \<le> median xs"
proof -
  let ?s = "sort xs"
  have len: "length ?s = length xs" by simp
  have pos: "0 < length ?s" using assms(1) by simp
  have nn: "\<And>k. k < length ?s \<Longrightarrow> 0 \<le> ?s ! k"
    using assms(2) by (metis nth_mem set_sort)
  have a: "0 \<le> ?s ! (length ?s div 2)" using pos by (intro nn) simp
  have b: "0 \<le> ?s ! (length ?s div 2 - 1)" using pos by (intro nn) arith
  show ?thesis unfolding median_def Let_def using a b by simp
qed

lemma int_cast_nonneg: "0 \<le> q \<Longrightarrow> int_cast q = \<lfloor>q\<rfloor>"
  by (simp add: int_cast_def)

lemma median_odd:
  "odd (length xs) \<Longrightarrow> median xs = of_int (sort xs ! (length xs div 2))"
  by (simp add: median_def)

lemma where_max_seg_tied: "where_max (raw_images seg_tied) 0 = [(0, 0), (3, 0)]"
  by (simp add: where_max_def seg_tied_def plane_coords_def amax_def upt_rec)

lemma roi_locations_seg_tied: "get_roi_locations seg_tied None = Inr [(1, 0)]"
proof -
  have "roi_loc (raw_images seg_tied) 0 = Inr (1, 0)"
  proof -
    have "\<lfloor>3 / 2 :: rat\<rfloor> = 1" by (rule floor_unique) simp_all
    then show ?thesis
      unfolding roi_loc_def where_max_seg_tied by (simp add: seg_tied_def median_def int_cast_def)
  qed
  then show ?thesis
    by (simp add: get_roi_locations_def roi_locs_def no_rois_def roi_idx_def)
      (simp add: seg_tied_def)
qed

lemma distinct_where_max: "distinct (where_max a i)"
  unfolding where_max_def Let_def plane_coords_def
  by (cases "shape3 a") (auto simp: distinct_product)

lemma roi_loc_Inr:
  assumes "shape3 a = (R, C, D)" "0 < R" "0 < C" "k < D"
  shows "roi_loc a k =
           Inr (\<lfloor>median (map (\<lambda>(r, c). int r) (where_max a k))\<rfloor>,
                \<lfloor>median (map (\<lambda>(r, c). int c) (where_max a k))\<rfloor>)"
proof -
  have ne: "where_max a k \<noteq> []" by (rule where_max_nonempty [OF assms(1-3)])
  have "0 \<le> median (map (\<lambda>(r, c). int r) (where_max a k))"
    using ne by (intro median_nonneg) auto
  moreover have "0 \<le> median (map (\<lambda>(r, c). int c) (where_max a k))"
    using ne by (intro median_nonneg) auto
  ultimately show ?thesis
    using assms unfolding roi_loc_def Let_def by (simp add: int_cast_nonneg)
qed

text \<open>
  Claim C7, as amended. On a non-empty image plane, \<^verbatim>\<open>get_roi_locations\<close> returns for every roi
  the pair of the medians of the row and of the column coordinates, each truncated to an
  integer, taken over exactly the pixels whose weight is the maximum weight of that roi's
  plane; with an odd number of such pixels the truncation changes nothing.
\<close>

theorem roi_locations_truncated_median:
  assumes "shape3 (raw_images s) = (R, C, D)" and "0 < R" and "0 < C"
    and "no_rois s \<le> D" and "i < no_rois s"
  shows "\<exists>locs. get_roi_locations s None = Inr locs \<and> length locs = no_rois s
           \<and> locs ! i = (\<lfloor>median (map (\<lambda>(r, c). int r) (where_max (raw_images s) i))\<rfloor>,
                         \<lfloor>median (map (\<lambda>(r, c). int c) (where_max (raw_images s) i))\<rfloor>)
           \<and> (odd (length (where_max (raw_images s) i)) \<longrightarrow>
                of_int (fst (locs ! i)) = median (map (\<lambda>(r, c). int r) (where_max (raw_images s) i))
              \<and> of_int (snd (locs ! i)) = median (map (\<lambda>(r, c). int c) (where_max (raw_images s) i)))
           \<and> set (where_max (raw_images s) i) =
                {(r, c). r < R \<and> c < C \<and>
                   (\<forall>r' < R. \<forall>c' < C. at3 (raw_images s) r' c' i \<le> at3 (raw_images s) r c i)}
           \<and> distinct (where_max (raw_images s) i)"
proof -
  let ?a = "raw_images s"
  let ?g = "\<lambda>k. (\<lfloor>median (map (\<lambda>(r, c). int r) (where_max ?a k))\<rfloor>,
                  \<lfloor>median (map (\<lambda>(r, c). int c) (where_max ?a k))\<rfloor>)"
  have "roi_loc ?a k = Inr (?g k)" if "k \<in> set [0..<no_rois s]" for k
    using that assms(4) by (intro roi_loc_Inr [OF assms(1-3)]) simp
  then have locs: "roi_locs s = Inr (map ?g [0..<no_rois s])"
    unfolding roi_locs_def by (rule sequence_err_map_Inr)
  have nth: "map ?g [0..<no_rois s] ! i = ?g i"
    using assms(5) by simp
  have odd: "of_int \<lfloor>median xs\<rfloor> = median xs" if "odd (length xs)" for xs
    using that by (simp add: median_odd)
  show ?thesis
    apply (rule exI [where x = "map ?g [0..<no_rois s]"])
    apply (simp only: get_roi_locations_def option.case locs nth)
    apply (intro conjI impI)
          apply simp
         apply simp
        apply simp
       apply (simp add: odd)
      apply (simp add: odd)
     apply (rule set_where_max [OF assms(1-3)])
    apply (rule distinct_where_max)
    done
qed

lemma floor_three_halves: "\<lfloor>3 / 2 :: rat\<rfloor> = 1"
  by (rule floor_unique) simp_all

lemma where_max_seg_unset: "where_max (raw_images seg_unset) 0 = [(0, 0)]"
  by (simp add: where_max_def seg_unset_def plane_coords_def amax_def)

theorem roi_locations_truncated_median_witness:
  "shape3 (raw_images seg_tied) = (4, 1, 1) \<and> no_rois seg_tied \<le> 1 \<and> 0 < no_rois seg_tied
   \<and> (\<exists>locs. get_roi_locations seg_tied None = Inr locs \<and> locs ! 0 = (1, 0))
   \<and> shape3 (raw_images seg_unset) = (1, 1, 3) \<and> no_rois seg_unset \<le> 3 \<and> 0 < no_rois seg_unset
   \<and> odd (length (where_max (raw_images seg_unset) 0))
   \<and> (\<exists>locs. get_roi_locations seg_unset None = Inr locs \<and> locs ! 0 = (0, 0)
         \<and> of_int (fst (locs ! 0)) = median (map (\<lambda>(r, c). int r) (where_max (raw_images seg_unset) 0)))"
proof -
  have a: "shape3 (raw_images seg_tied) = (4, 1, 1)" by (simp add: seg_tied_def)
  have b: "no_rois seg_tied = 1" by (simp add: seg_tied_def no_rois_def roi_idx_def)
  have c: "shape3 (raw_images seg_unset) = (1, 1, 3)" by (simp add: seg_unset_def)
  have d: "no_rois seg_unset = 3" by (simp add: seg_unset_def no_rois_def roi_idx_def)
  have m1: "\<lfloor>median (map (\<lambda>(r, c). int r) (where_max (raw_images seg_tied) 0))\<rfloor> = 1"
    unfolding where_max_seg_tied by (simp add: median_def floor_three_halves)
  have m2: "\<lfloor>median (map (\<lambda>(r, c). int c) (where_max (raw_images seg_tied) 0))\<rfloor> = 0"
    unfolding where_max_seg_tied by (simp add: median_def)
  have m3: "\<lfloor>median (map (\<lambda>(r, c). int r) (where_max (raw_images seg_unset) 0))\<rfloor> = 0"
    unfolding where_max_seg_unset by (simp add: median_def)
  have m4: "\<lfloor>median (map (\<lambda>(r, c). int c) (where_max (raw_images seg_unset) 0))\<rfloor> = 0"
    unfolding where_max_seg_unset by (simp add: median_def)
  have o: "odd (length (where_max (raw_images seg_unset) 0))"
    unfolding where_max_seg_unset by simp
  have e1: "\<exists>locs. get_roi_locations seg_tied None = Inr locs \<and> locs ! 0 = (1, 0)"
    using roi_locations_truncated_median [of seg_tied 4 1 1 0] a b m1 m2 by auto
  have e2: "\<exists>locs. get_roi_locations seg_unset None = Inr locs \<and> locs ! 0 = (0, 0)
         \<and> of_int (fst (locs ! 0)) = median (map (\<lambda>(r, c). int r) (where_max (raw_images seg_unset) 0))"
    using roi_locations_truncated_median [of seg_unset 1 1 3 0] c d m3 m4 o by auto
  show ?thesis using a b c d o e1 e2 by simp
qed

text \<open>
  Claim C7 as stated fails: with the maximum attained in the rows 0 and 3 the median row is
  3/2, and the location returned is row 1.
\<close>

theorem roi_location_not_median_counterexample:
  "where_max (raw_images seg_tied) 0 = [(0, 0), (3, 0)]
   \<and> median (map (\<lambda>(r, c). int r) [(0, 0), (3, 0)]) = 3 / 2
   \<and> get_roi_locations seg_tied None = Inr [(1, 0)]"
  using where_max_seg_tied roi_locations_seg_tied by (simp add: median_def)

subsection \<open>Hdf5ImagingExtractor.get\_frames returns the contiguous span\<close>

lemma amin_eq_Min: "xs \<noteq> [] \<Longrightarrow> amin xs = Min (set xs)"
  unfolding amin_def by (cases xs) (simp_all add: Min.set_eq_fold [symmetric])

lemma take_drop_nth: "hi \<le> length xs \<Longrightarrow> take (hi - lo) (drop lo xs) = map ((!) xs) [lo..<hi]"
proof (cases "lo \<le> hi")
  case True
  assume hi: "hi \<le> length xs"
  have "map ((!) xs) [lo..<hi] = take (hi - lo) (drop lo xs)"
    using True hi by (intro nth_equalityI) auto
  then show ?thesis by simp
next
  case False
  then show ?thesis by simp
qed

lemma py_slice_nonneg:
  assumes "0 \<le> a" "0 \<le> b"
  shows "py_slice xs a b = map ((!) xs) [nat a..<min (nat b) (length xs)]"
proof -
  have sb: "slice_bound (length xs) a = min (length xs) (nat a)"
       "slice_bound (length xs) b = min (length xs) (nat b)"
    using assms by (simp_all add: slice_bound_def)
  show ?thesis
  proof (cases "nat a \<le> length xs")
    case True
    then show ?thesis
      unfolding py_slice_def Let_def sb
      by (simp add: take_drop_nth min.commute min_absorb2)
  next
    case False
    then show ?thesis
      unfolding py_slice_def Let_def sb by simp
  qed
qed

lemma frame_slice_Some:
  assumes "idxs \<noteq> []"
  shows "frame_slice e (Some idxs) =
           Inr (Min (set idxs), min (Max (set idxs) + 1) (int (x_num_frames e)))"
  using assms by (simp add: frame_slice_def amin_eq_Min amax_eq_Max hdf5_get_num_frames_def)

lemma get_frames_view:
  assumes "frame_slice e frame_idxs = Inr (a, b)"
    and "(\<exists>v. x_standard_video e = Video4 v
              \<and> (ch = None \<or> (\<exists>c. ch = Some c \<and> channel_in_range v c)))
         \<or> (\<exists>v b. x_standard_video e = Video3 v \<and> data_has_channel_axis e = Some b)"
  shows "get_frames e frame_idxs ch = Inr (map (frame_view e ch) (py_slice (video_frames e) a b))"
  using assms unfolding get_frames_def frame_view_def
  by (auto split: video.splits option.splits if_splits)

lemma get_frames_raises:
  "get_frames e (Some []) ch = Inl (ValueError ''zero-size array to reduction operation'')"
  "frame_idxs \<noteq> Some [] \<Longrightarrow> x_standard_video e = Video3 v \<Longrightarrow> data_has_channel_axis e = None \<Longrightarrow>
     get_frames e frame_idxs ch = Inl (AttributeError ''data_has_channel_axis'')"
  "frame_idxs \<noteq> Some [] \<Longrightarrow> x_standard_video e = Video4 w \<Longrightarrow> \<not> channel_in_range w c \<Longrightarrow>
     get_frames e frame_idxs (Some c) = Inl (IndexError ''index is out of bounds for axis 3'')"
  unfolding get_frames_def frame_slice_def
  by (auto split: option.splits)

text \<open>
  Claim C10, as amended. Take an extractor whose \<^verbatim>\<open>self._num_frames\<close> is the length of the
  frame axis, and a call that reaches a slicing branch: a video with a channels axis read
  with \<^verbatim>\<open>channel=None\<close> or with a channel of the channels axis (such as the default 0), or
  a video without a channels axis on an object that has the attribute
  \<^verbatim>\<open>data_has_channel_axis\<close>. Then the call returns, and for a non-empty request the block
  is the Python slice of the frame axis from the smallest requested index to the smaller of
  the largest requested index plus one and the number of frames. For non-negative indices
  this is every frame from the smallest index up to (excluding) that bound, in order, so its
  length is that span and not the number of requested indices. For \<^verbatim>\<open>frame_idxs=None\<close> the
  block holds all frames. Each frame of the block is the frame of the video, under the
  selected channel or a new axis as the branch says.
\<close>

theorem get_frames_contiguous_block:
  assumes "x_num_frames e = length (video_frames e)"
    and "(\<exists>v. x_standard_video e = Video4 v
              \<and> (ch = None \<or> (\<exists>c. ch = Some c \<and> channel_in_range v c)))
         \<or> (\<exists>v b. x_standard_video e = Video3 v \<and> data_has_channel_axis e = Some b)"
  shows "(idxs \<noteq> [] \<longrightarrow>
            get_frames e (Some idxs) ch =
              Inr (map (frame_view e ch)
                    (py_slice (video_frames e) (Min (set idxs))
                       (min (Max (set idxs) + 1) (int (x_num_frames e))))))
       \<and> (idxs \<noteq> [] \<and> (\<forall>i \<in> set idxs. 0 \<le> i) \<longrightarrow>
            (\<exists>blk. get_frames e (Some idxs) ch = Inr blk
               \<and> blk = map (\<lambda>k. frame_view e ch (video_frames e ! k))
                         [nat (Min (set idxs))..<min (nat (Max (set idxs)) + 1) (x_num_frames e)]
               \<and> length blk = min (nat (Max (set idxs)) + 1) (x_num_frames e) - nat (Min (set idxs))))
       \<and> get_frames e None ch = Inr (map (frame_view e ch) (video_frames e))
       \<and> (\<forall>v. x_standard_video e = Video4 v \<longrightarrow>
            video_frames e = map Frame3 v
            \<and> frame_view e ch = (case ch of None \<Rightarrow> (\<lambda>f. f) | Some c \<Rightarrow> select_channel c))
       \<and> (\<forall>v. x_standard_video e = Video3 v \<longrightarrow>
            video_frames e = map Frame2 v
            \<and> frame_view e ch =
                (if data_has_channel_axis e = Some False \<and> ch = None then new_axis else (\<lambda>f. f)))"
proof (intro conjI impI allI)
  assume ne: "idxs \<noteq> []"
  show "get_frames e (Some idxs) ch =
          Inr (map (frame_view e ch)
                (py_slice (video_frames e) (Min (set idxs))
                   (min (Max (set idxs) + 1) (int (x_num_frames e)))))"
    by (rule get_frames_view [OF frame_slice_Some [OF ne] assms(2)])
next
  assume h: "idxs \<noteq> [] \<and> (\<forall>i \<in> set idxs. 0 \<le> i)"
  then have ne: "idxs \<noteq> []" and nn: "\<forall>i \<in> set idxs. 0 \<le> i" by auto
  have lo: "0 \<le> Min (set idxs)" using ne nn by simp
  have hi0: "0 \<le> Max (set idxs)" using ne nn by (meson List.finite_set Max_in set_empty)
  let ?hi = "min (Max (set idxs) + 1) (int (x_num_frames e))"
  let ?blk = "map (\<lambda>k. frame_view e ch (video_frames e ! k))
                [nat (Min (set idxs))..<min (nat (Max (set idxs)) + 1) (x_num_frames e)]"
  have hi: "0 \<le> ?hi" using hi0 by simp
  have nhi: "min (nat ?hi) (length (video_frames e)) = min (nat (Max (set idxs)) + 1) (x_num_frames e)"
    using hi0 assms(1) by arith
  have "get_frames e (Some idxs) ch =
          Inr (map (frame_view e ch) (py_slice (video_frames e) (Min (set idxs)) ?hi))"
    by (rule get_frames_view [OF frame_slice_Some [OF ne] assms(2)])
  then have g: "get_frames e (Some idxs) ch = Inr ?blk"
    unfolding py_slice_nonneg [OF lo hi] nhi by (simp add: o_def)
  have l: "length ?blk = min (nat (Max (set idxs)) + 1) (x_num_frames e) - nat (Min (set idxs))"
    by simp
  show "\<exists>blk. get_frames e (Some idxs) ch = Inr blk
               \<and> blk = ?blk
               \<and> length blk = min (nat (Max (set idxs)) + 1) (x_num_frames e) - nat (Min (set idxs))"
    using g l by (intro exI [where x = ?blk] conjI) simp_all
next
  have fs: "frame_slice e None = Inr (0, int (x_num_frames e))"
    by (simp add: frame_slice_def hdf5_get_num_frames_def)
  have "get_frames e None ch =
          Inr (map (frame_view e ch) (py_slice (video_frames e) 0 (int (x_num_frames e))))"
    by (rule get_frames_view [OF fs assms(2)])
  then show "get_frames e None ch = Inr (map (frame_view e ch) (video_frames e))"
    using assms(1) by (simp add: py_slice_nonneg map_nth)
next
  fix v assume "x_standard_video e = Video4 v"
  then show "video_frames e = map Frame3 v"
    and "frame_view e ch = (case ch of None \<Rightarrow> (\<lambda>f. f) | Some c \<Rightarrow> select_channel c)"
    by (simp_all add: video_frames_def frame_view_def split: option.splits)
next
  fix v assume "x_standard_video e = Video3 v"
  then show "video_frames e = map Frame2 v"
    and "frame_view e ch =
           (if data_has_channel_axis e = Some False \<and> ch = None then new_axis else (\<lambda>f. f))"
    by (simp_all add: video_frames_def frame_view_def)
qed

lemma channel_in_range_hdf5_six:
  "channel_in_range [[[[0, 10]]], [[[1, 11]]], [[[2, 12]]], [[[3, 13]]], [[[4, 14]]], [[[5 :: int, 15]]]] 0"
  by (simp add: channel_in_range_def py_index_def)

theorem get_frames_contiguous_block_witness:
  "x_num_frames hdf5_six = length (video_frames hdf5_six)
   \<and> get_frames hdf5_six (Some [1, 4]) None =
       Inr [Frame3 [[[1, 11]]], Frame3 [[[2, 12]]], Frame3 [[[3, 13]]], Frame3 [[[4, 14]]]]
   \<and> get_frames hdf5_six (Some [1, 4]) (Some 0) =
       Inr [Frame2 [[1]], Frame2 [[2]], Frame2 [[3]], Frame2 [[4]]]
   \<and> get_frames hdf5_six None None = Inr (video_frames hdf5_six)
   \<and> get_frames hdf5_flat (Some [2, 0]) None =
       Inr [Frame3 [[[7]]], Frame3 [[[8]]], Frame3 [[[9]]]]"
proof -
  have wf: "x_num_frames hdf5_six = length (video_frames hdf5_six)"
    by (simp add: hdf5_six_def video_frames_def)
  have v: "x_standard_video hdf5_six =
      Video4 [[[[0, 10]]], [[[1, 11]]], [[[2, 12]]], [[[3, 13]]], [[[4, 14]]], [[[5, 15]]]]"
    by (simp add: hdf5_six_def)
  have r1: "(\<exists>v. x_standard_video hdf5_six = Video4 v
              \<and> (None = (None :: int option) \<or> (\<exists>c. None = Some c \<and> channel_in_range v c)))
         \<or> (\<exists>v b. x_standard_video hdf5_six = Video3 v \<and> data_has_channel_axis hdf5_six = Some b)"
    unfolding v by simp
  have r2: "(\<exists>v. x_standard_video hdf5_six = Video4 v
              \<and> (Some 0 = (None :: int option) \<or> (\<exists>c. Some 0 = Some c \<and> channel_in_range v c)))
         \<or> (\<exists>v b. x_standard_video hdf5_six = Video3 v \<and> data_has_channel_axis hdf5_six = Some b)"
    unfolding v using channel_in_range_hdf5_six by simp
  have wf3: "x_num_frames hdf5_flat = length (video_frames hdf5_flat)"
    by (simp add: hdf5_flat_def video_frames_def)
  have r3: "(\<exists>v. x_standard_video hdf5_flat = Video4 v
              \<and> (None = (None :: int option) \<or> (\<exists>c. None = Some c \<and> channel_in_range v c)))
         \<or> (\<exists>v b. x_standard_video hdf5_flat = Video3 v \<and> data_has_channel_axis hdf5_flat = Some b)"
    by (auto simp: hdf5_flat_def)
  have mm: "Min (set [1, 4 :: int]) = 1" "Max (set [1, 4 :: int]) = 4"
    "Min (set [2, 0 :: int]) = 0" "Max (set [2, 0 :: int]) = 2"
    by simp_all
  have n6: "x_num_frames hdf5_six = 6" "x_num_frames hdf5_flat = 3"
    by (simp_all add: hdf5_six_def hdf5_flat_def)
  have vf: "video_frames hdf5_six =
      [Frame3 [[[0, 10]]], Frame3 [[[1, 11]]], Frame3 [[[2, 12]]], Frame3 [[[3, 13]]],
       Frame3 [[[4, 14]]], Frame3 [[[5, 15]]]]"
    by (simp add: hdf5_six_def video_frames_def)
  have vf3: "video_frames hdf5_flat = [Frame2 [[7]], Frame2 [[8]], Frame2 [[9]]]"
    by (simp add: hdf5_flat_def video_frames_def)
  have fv: "frame_view hdf5_six None = (\<lambda>f. f)" "frame_view hdf5_six (Some 0) = select_channel 0"
    "frame_view hdf5_flat None = new_axis"
    by (simp_all add: frame_view_def hdf5_six_def hdf5_flat_def)
  note a = get_frames_contiguous_block [OF wf r1, of "[1, 4]"]
  note b = get_frames_contiguous_block [OF wf r2, of "[1, 4]"]
  note c = get_frames_contiguous_block [OF wf3 r3, of "[2, 0]"]
  have "\<exists>blk. get_frames hdf5_six (Some [1, 4]) None = Inr blk
      \<and> blk = map (\<lambda>k. frame_view hdf5_six None (video_frames hdf5_six ! k))
                [nat (Min (set [1, 4]))..<min (nat (Max (set [1, 4])) + 1) (x_num_frames hdf5_six)]
      \<and> length blk = min (nat (Max (set [1, 4])) + 1) (x_num_frames hdf5_six) - nat (Min (set [1, 4]))"
    by (rule a [THEN conjunct2, THEN conjunct1, THEN mp]) simp
  then have a1: "get_frames hdf5_six (Some [1, 4]) None =
       Inr [Frame3 [[[1, 11]]], Frame3 [[[2, 12]]], Frame3 [[[3, 13]]], Frame3 [[[4, 14]]]]"
    unfolding mm n6 fv vf by (simp add: upt_rec)
  have a2: "get_frames hdf5_six None None = Inr (video_frames hdf5_six)"
    using a [THEN conjunct2, THEN conjunct2, THEN conjunct1] unfolding fv by simp
  have "\<exists>blk. get_frames hdf5_six (Some [1, 4]) (Some 0) = Inr blk
      \<and> blk = map (\<lambda>k. frame_view hdf5_six (Some 0) (video_frames hdf5_six ! k))
                [nat (Min (set [1, 4]))..<min (nat (Max (set [1, 4])) + 1) (x_num_frames hdf5_six)]
      \<and> length blk = min (nat (Max (set [1, 4])) + 1) (x_num_frames hdf5_six) - nat (Min (set [1, 4]))"
    by (rule b [THEN conjunct2, THEN conjunct1, THEN mp]) simp
  then have b1: "get_frames hdf5_six (Some [1, 4]) (Some 0) =
       Inr [Frame2 [[1]], Frame2 [[2]], Frame2 [[3]], Frame2 [[4]]]"
    unfolding mm n6 fv vf by (simp add: upt_rec select_channel_def py_index_def)
  have "\<exists>blk. get_frames hdf5_flat (Some [2, 0]) None = Inr blk
      \<and> blk = map (\<lambda>k. frame_view hdf5_flat None (video_frames hdf5_flat ! k))
                [nat (Min (set [2, 0]))..<min (nat (Max (set [2, 0])) + 1) (x_num_frames hdf5_flat)]
      \<and> length blk = min (nat (Max (set [2, 0])) + 1) (x_num_frames hdf5_flat) - nat (Min (set [2, 0]))"
    by (rule c [THEN conjunct2, THEN conjunct1, THEN mp]) simp
  then have c1: "get_frames hdf5_flat (Some [2, 0]) None =
       Inr [Frame3 [[[7]]], Frame3 [[[8]]], Frame3 [[[9]]]]"
    unfolding mm n6 fv vf3 by (simp add: upt_rec new_axis_def)
  show ?thesis using wf a1 a2 b1 c1 by simp
qed

text \<open>
  Claim C10 as stated fails for a negative index: the request [-2, 1] on six frames has the
  minimum -2 and the bound 2, and the slice from -2 to 2 of six frames is empty, so no frame
  is returned, not even the requested frame 1.
\<close>

theorem get_frames_negative_index_counterexample:
  "length (video_frames hdf5_six) = 6
   \<and> amin [- 2, 1 :: int] = - 2
   \<and> min (amax [- 2, 1 :: int] + 1) (int (hdf5_get_num_frames hdf5_six)) = 2
   \<and> get_frames hdf5_six (Some [- 2, 1]) None = Inr []"
  by (simp add: get_frames_def frame_slice_def hdf5_six_def amin_def amax_def hdf5_get_num_frames_def
      py_slice_def slice_bound_def video_frames_def)

subsection \<open>set\_dynamic\_table\_property changes the supplied rows only\<close>

lemma index_of_less: "x \<in> set xs \<Longrightarrow> index_of xs x < length xs"
  unfolding index_of_def by (induction xs) auto

lemma nth_index_of: "x \<in> set xs \<Longrightarrow> xs ! index_of xs x = x"
  unfolding index_of_def by (induction xs) auto

lemma length_fill_rows: "length (fill_rows ids pairs d) = length d"
  unfolding fill_rows_def by (induction pairs arbitrary: d) auto

lemma fill_rows_untouched:
  "\<forall>r \<in> fst ` set pairs. index_of ids r \<noteq> p \<Longrightarrow> fill_rows ids pairs d ! p = d ! p"
  unfolding fill_rows_def by (induction pairs arbitrary: d) auto

lemma fill_rows_unsupplied:
  assumes "fst ` set pairs \<subseteq> set ids" "ids ! p \<notin> fst ` set pairs"
  shows "fill_rows ids pairs d ! p = d ! p"
proof (rule fill_rows_untouched, rule ballI)
  fix r assume r: "r \<in> fst ` set pairs"
  with assms(1) have "ids ! index_of ids r = r" by (intro nth_index_of) auto
  with r assms(2) show "index_of ids r \<noteq> p" by auto
qed

lemma fill_rows_supplied:
  assumes "distinct (map fst pairs)" "fst ` set pairs \<subseteq> set ids" "(r, v) \<in> set pairs"
    "index_of ids r < length d"
  shows "fill_rows ids pairs d ! index_of ids r = v"
  using assms
proof (induction pairs arbitrary: d)
  case Nil
  then show ?case by simp
next
  case (Cons q pairs)
  obtain r0 v0 where q: "q = (r0, v0)" by (cases q)
  have step: "fill_rows ids (q # pairs) d = fill_rows ids pairs (d[index_of ids r0 := v0])"
    by (simp add: fill_rows_def q)
  show ?case
  proof (cases "(r, v) \<in> set pairs")
    case True
    with Cons show ?thesis unfolding step by (intro Cons.IH) auto
  next
    case False
    with Cons.prems q have eq: "r0 = r" "v0 = v" by auto
    have "ids ! index_of ids r = r" using Cons.prems q eq by (intro nth_index_of) auto
    moreover have "r \<notin> fst ` set pairs" using Cons.prems(1) q eq by auto
    ultimately have "\<forall>r' \<in> fst ` set pairs. index_of ids r' \<noteq> index_of ids r"
      using Cons.prems(2) by (metis insert_subset list.simps(15) image_insert nth_index_of subsetD)
    then have "fill_rows ids pairs (d[index_of ids r0 := v0]) ! index_of ids r
               = (d[index_of ids r0 := v0]) ! index_of ids r"
      by (rule fill_rows_untouched)
    then show ?thesis unfolding step using eq Cons.prems(4) by simp
  qed
qed

lemma column_pos_less: "has_column dt name \<Longrightarrow> column_pos dt name < length (table_columns dt)"
  unfolding has_column_def column_pos_def using index_of_less [of name "map col_name (table_columns dt)"]
  by simp

lemma col_name_column_pos:
  "has_column dt name \<Longrightarrow> col_name (table_columns dt ! column_pos dt name) = name"
  unfolding has_column_def column_pos_def
  using nth_index_of [of name "map col_name (table_columns dt)"]
    index_of_less [of name "map col_name (table_columns dt)"]
  by simp

lemma names_with_column_data:
  "map col_name (table_columns (with_column_data dt name data)) = map col_name (table_columns dt)"
  unfolding with_column_data_def
  by (simp add: map_update) (metis list_update_id map_update)

lemma column_pos_with_column_data:
  "column_pos (with_column_data dt name data) name = column_pos dt name"
  unfolding column_pos_def names_with_column_data ..

lemma has_column_with_column_data:
  "has_column (with_column_data dt name data) name = has_column dt name"
  unfolding has_column_def names_with_column_data ..

lemma data_with_column_data:
  "has_column dt name \<Longrightarrow>
   col_data (table_columns (with_column_data dt name data) ! column_pos dt name) = data"
  using column_pos_less [of dt name] by (simp add: with_column_data_def)

lemma with_column_data_twice:
  "has_column dt name \<Longrightarrow>
   with_column_data (with_column_data dt name d1) name d2 = with_column_data dt name d2"
  using column_pos_less [of dt name]
  unfolding with_column_data_def [of "with_column_data dt name d1"] column_pos_with_column_data
  by (simp add: with_column_data_def)

lemma set_cell_eq:
  "set_cell dt name pos v =
     (if pos < length (col_data (table_columns dt ! column_pos dt name))
      then Inr (with_column_data dt name ((col_data (table_columns dt ! column_pos dt name))[pos := v]))
      else Inl (IndexError ''list assignment index out of range''))"
  by (simp add: set_cell_def with_column_data_def Let_def)

lemma assign_rows_eq:
  assumes "has_column dt name"
    and "\<forall>r \<in> fst ` set pairs. index_of ids r < length (col_data (table_columns dt ! column_pos dt name))"
  shows "assign_rows dt name ids pairs =
           Inr (with_column_data dt name
                 (fill_rows ids pairs (col_data (table_columns dt ! column_pos dt name))))"
  using assms
proof (induction pairs arbitrary: dt)
  case Nil
  then show ?case
    using column_pos_less [of dt name]
    by (simp add: fill_rows_def with_column_data_def)
next
  case (Cons q pairs)
  obtain r v where q: "q = (r, v)" by (cases q)
  let ?d = "col_data (table_columns dt ! column_pos dt name)"
  let ?dt1 = "with_column_data dt name (?d[index_of ids r := v])"
  have lt: "index_of ids r < length ?d" using Cons.prems(2) q by simp
  have sc: "set_cell dt name (index_of ids r) v = Inr ?dt1"
    using lt by (simp add: set_cell_eq)
  have h1: "has_column ?dt1 name" using Cons.prems(1) by (simp add: has_column_with_column_data)
  have d1: "col_data (table_columns ?dt1 ! column_pos ?dt1 name) = ?d[index_of ids r := v]"
    unfolding column_pos_with_column_data by (rule data_with_column_data [OF Cons.prems(1)])
  have "assign_rows ?dt1 name ids pairs =
          Inr (with_column_data ?dt1 name
                (fill_rows ids pairs (col_data (table_columns ?dt1 ! column_pos ?dt1 name))))"
    using Cons.prems(2) by (intro Cons.IH [OF h1]) (simp add: d1)
  then show ?case
    unfolding q d1 by (simp add: sc with_column_data_twice [OF Cons.prems(1)] fill_rows_def)
qed

lemma zip_fst_set: "length xs = length ys \<Longrightarrow> fst ` set (zip xs ys) = set xs"
  by (metis map_fst_zip set_map)

lemma set_property_unknown_id:
  assumes "\<exists>i \<in> set row_ids. i \<notin> set (table_id dt)"
  shows "set_dynamic_table_property dt row_ids name values index dflt descr =
        Inl (ValueError ''ids contains values outside the range of existing ids'', dt)"
  using assms unfolding set_dynamic_table_property_def Let_def by (simp only: if_True)

lemma fill_rows_zip_unsupplied:
  assumes "set row_ids \<subseteq> set ids" "length row_ids = length values" "ids ! p \<notin> set row_ids"
  shows "fill_rows ids (zip row_ids values) d ! p = d ! p"
  using assms by (intro fill_rows_unsupplied) (simp_all add: zip_fst_set)

lemma fill_rows_zip_supplied:
  assumes "set row_ids \<subseteq> set ids" "length row_ids = length values" "distinct row_ids"
    "k < length row_ids" "length d = length ids"
  shows "fill_rows ids (zip row_ids values) d ! index_of ids (row_ids ! k) = values ! k"
proof (rule fill_rows_supplied)
  show "distinct (map fst (zip row_ids values))" using assms(2,3) by simp
  show "fst ` set (zip row_ids values) \<subseteq> set ids"
    using assms(1,2) by (simp add: zip_fst_set)
  show "(row_ids ! k, values ! k) \<in> set (zip row_ids values)"
    using assms(2,4) unfolding set_zip by auto
  have "row_ids ! k \<in> set ids" using assms(1,4) by auto
  then show "index_of ids (row_ids ! k) < length d"
    unfolding assms(5) by (rule index_of_less)
qed

lemma set_property_existing:
  assumes sub: "set row_ids \<subseteq> set (table_id dt)" and ni: "\<not> index"
    and len: "length row_ids = length values" and hc: "has_column dt name"
    and lo: "length (col_data (table_columns dt ! column_pos dt name)) = length (table_id dt)"
  shows "set_dynamic_table_property dt row_ids name values index dflt descr =
           Inr (with_column_data dt name
                 (fill_rows (table_id dt) (zip row_ids values)
                    (col_data (table_columns dt ! column_pos dt name))))"
proof -
  have "index_of (table_id dt) r < length (col_data (table_columns dt ! column_pos dt name))"
    if "r \<in> fst ` set (zip row_ids values)" for r
  proof -
    from that have "r \<in> set row_ids" unfolding zip_fst_set [OF len] .
    with sub have "r \<in> set (table_id dt)" by (rule subsetD)
    then show ?thesis unfolding lo by (rule index_of_less)
  qed
  then have "\<forall>r \<in> fst ` set (zip row_ids values).
          index_of (table_id dt) r < length (col_data (table_columns dt ! column_pos dt name))"
    by (rule ballI)
  then have "assign_rows dt name (table_id dt) (zip row_ids values) =
           Inr (with_column_data dt name
                 (fill_rows (table_id dt) (zip row_ids values)
                    (col_data (table_columns dt ! column_pos dt name))))"
    by (rule assign_rows_eq [OF hc])
  moreover have "\<not> (\<exists>i \<in> set row_ids. i \<notin> set (table_id dt))" using sub by blast
  ultimately show ?thesis
    unfolding set_dynamic_table_property_def Let_def using ni len hc by simp
qed

lemma set_property_new:
  assumes sub: "set row_ids \<subseteq> set (table_id dt)" and ni: "\<not> index"
    and len: "length row_ids = length values" and hc: "\<not> has_column dt name"
  shows "set_dynamic_table_property dt row_ids name values index dflt descr =
           Inr (add_column dt name descr
                 (fill_rows (table_id dt) (zip row_ids values)
                    (replicate (length (table_id dt)) dflt)) False)"
proof -
  have "\<not> (\<exists>i \<in> set row_ids. i \<notin> set (table_id dt))" using sub by blast
  then show ?thesis
    unfolding set_dynamic_table_property_def Let_def using ni len hc by simp
qed

lemma set_property_index:
  assumes sub: "set row_ids \<subseteq> set (table_id dt)" and i: "index"
  shows "set_dynamic_table_property dt row_ids name values index dflt descr =
           (if has_column dt name then Inl (NotImplementedError, dt)
            else Inr (add_column dt name descr values True))"
proof -
  have "\<not> (\<exists>i \<in> set row_ids. i \<notin> set (table_id dt))" using sub by blast
  then show ?thesis
    unfolding set_dynamic_table_property_def Let_def using i by simp
qed

text \<open>
  Claim C8, as amended. An unknown row id fails with ValueError and leaves the table as it
  was, whatever the other arguments. With \<^verbatim>\<open>index=False\<close> and as many values as row ids: when
  the column exists (and has one entry per row), only its data changes, the rows whose id
  is not supplied keep their prior value, and distinct supplied ids get their values; when
  the column is new, it is appended with one entry per row, the rows whose id is not supplied
  hold the default value, and distinct supplied ids get their values. With \<^verbatim>\<open>index=True\<close> and
  known row ids: when the column exists the call fails with NotImplementedError and leaves
  the table as it was; when the column is new, the column handed to \<^verbatim>\<open>add_column\<close> is the
  list of values as given, whatever the row ids and the default value are.
\<close>

theorem set_dynamic_table_property_frame:
  "((\<exists>i \<in> set row_ids. i \<notin> set (table_id dt)) \<longrightarrow>
      set_dynamic_table_property dt row_ids name values index dflt descr =
        Inl (ValueError ''ids contains values outside the range of existing ids'', dt))
   \<and> (set row_ids \<subseteq> set (table_id dt) \<and> \<not> index \<and> length row_ids = length values
        \<and> has_column dt name
        \<and> length (col_data (table_columns dt ! column_pos dt name)) = length (table_id dt) \<longrightarrow>
      (\<exists>data'. set_dynamic_table_property dt row_ids name values index dflt descr =
                  Inr (with_column_data dt name data')
         \<and> length data' = length (table_id dt)
         \<and> (\<forall>p < length (table_id dt). table_id dt ! p \<notin> set row_ids \<longrightarrow>
               data' ! p = col_data (table_columns dt ! column_pos dt name) ! p)
         \<and> (distinct row_ids \<longrightarrow>
               (\<forall>k < length row_ids. data' ! index_of (table_id dt) (row_ids ! k) = values ! k))))
   \<and> (set row_ids \<subseteq> set (table_id dt) \<and> \<not> index \<and> length row_ids = length values
        \<and> \<not> has_column dt name \<longrightarrow>
      (\<exists>data'. set_dynamic_table_property dt row_ids name values index dflt descr =
                  Inr (add_column dt name descr data' False)
         \<and> length data' = length (table_id dt)
         \<and> (\<forall>p < length (table_id dt). table_id dt ! p \<notin> set row_ids \<longrightarrow> data' ! p = dflt)
         \<and> (distinct row_ids \<longrightarrow>
               (\<forall>k < length row_ids. data' ! index_of (table_id dt) (row_ids ! k) = values ! k))))
   \<and> (set row_ids \<subseteq> set (table_id dt) \<and> index \<and> has_column dt name \<longrightarrow>
      set_dynamic_table_property dt row_ids name values index dflt descr =
        Inl (NotImplementedError, dt))
   \<and> (set row_ids \<subseteq> set (table_id dt) \<and> index \<and> \<not> has_column dt name \<longrightarrow>
      set_dynamic_table_property dt row_ids name values index dflt descr =
        Inr (add_column dt name descr values True)
      \<and> table_id (add_column dt name descr values True) = table_id dt
      \<and> butlast (table_columns (add_column dt name descr values True)) = table_columns dt
      \<and> col_name (last (table_columns (add_column dt name descr values True))) = name
      \<and> col_data (last (table_columns (add_column dt name descr values True))) = values)"
proof (intro conjI impI)
  assume "\<exists>i \<in> set row_ids. i \<notin> set (table_id dt)"
  then show "set_dynamic_table_property dt row_ids name values index dflt descr =
        Inl (ValueError ''ids contains values outside the range of existing ids'', dt)"
    by (rule set_property_unknown_id)
next
  let ?old = "col_data (table_columns dt ! column_pos dt name)"
  let ?new = "fill_rows (table_id dt) (zip row_ids values) ?old"
  assume h: "set row_ids \<subseteq> set (table_id dt) \<and> \<not> index \<and> length row_ids = length values
        \<and> has_column dt name \<and> length ?old = length (table_id dt)"
  from h have sub: "set row_ids \<subseteq> set (table_id dt)" by (elim conjE)
  from h have ni: "\<not> index" by (elim conjE)
  from h have len: "length row_ids = length values" by (elim conjE)
  from h have hc: "has_column dt name" by (elim conjE)
  from h have lo: "length ?old = length (table_id dt)" by (elim conjE)
  show "\<exists>data'. set_dynamic_table_property dt row_ids name values index dflt descr =
                  Inr (with_column_data dt name data')
         \<and> length data' = length (table_id dt)
         \<and> (\<forall>p < length (table_id dt). table_id dt ! p \<notin> set row_ids \<longrightarrow> data' ! p = ?old ! p)
         \<and> (distinct row_ids \<longrightarrow>
               (\<forall>k < length row_ids. data' ! index_of (table_id dt) (row_ids ! k) = values ! k))"
  proof (intro exI [where x = ?new] conjI allI impI)
    show "set_dynamic_table_property dt row_ids name values index dflt descr =
            Inr (with_column_data dt name ?new)"
      by (rule set_property_existing [OF sub ni len hc lo])
    show "length ?new = length (table_id dt)" by (simp add: length_fill_rows lo)
    show "?new ! p = ?old ! p" if "table_id dt ! p \<notin> set row_ids" for p
      by (rule fill_rows_zip_unsupplied [OF sub len that])
    show "?new ! index_of (table_id dt) (row_ids ! k) = values ! k"
      if "distinct row_ids" "k < length row_ids" for k
      by (rule fill_rows_zip_supplied [OF sub len that lo])
  qed
next
  let ?old = "replicate (length (table_id dt)) dflt"
  let ?new = "fill_rows (table_id dt) (zip row_ids values) ?old"
  assume h: "set row_ids \<subseteq> set (table_id dt) \<and> \<not> index \<and> length row_ids = length values
        \<and> \<not> has_column dt name"
  from h have sub: "set row_ids \<subseteq> set (table_id dt)" by (elim conjE)
  from h have ni: "\<not> index" by (elim conjE)
  from h have len: "length row_ids = length values" by (elim conjE)
  from h have hc: "\<not> has_column dt name" by (elim conjE)
  have lo: "length ?old = length (table_id dt)" by simp
  show "\<exists>data'. set_dynamic_table_property dt row_ids name values index dflt descr =
                  Inr (add_column dt name descr data' False)
         \<and> length data' = length (table_id dt)
         \<and> (\<forall>p < length (table_id dt). table_id dt ! p \<notin> set row_ids \<longrightarrow> data' ! p = dflt)
         \<and> (distinct row_ids \<longrightarrow>
               (\<forall>k < length row_ids. data' ! index_of (table_id dt) (row_ids ! k) = values ! k))"
  proof (intro exI [where x = ?new] conjI allI impI)
    show "set_dynamic_table_property dt row_ids name values index dflt descr =
            Inr (add_column dt name descr ?new False)"
      by (rule set_property_new [OF sub ni len hc])
    show "length ?new = length (table_id dt)" by (simp add: length_fill_rows)
    show "?new ! p = dflt" if "p < length (table_id dt)" "table_id dt ! p \<notin> set row_ids" for p
      using fill_rows_zip_unsupplied [OF sub len that(2), of ?old] that(1) by simp
    show "?new ! index_of (table_id dt) (row_ids ! k) = values ! k"
      if "distinct row_ids" "k < length row_ids" for k
      by (rule fill_rows_zip_supplied [OF sub len that lo])
  qed
next
  assume h: "set row_ids \<subseteq> set (table_id dt) \<and> index \<and> has_column dt name"
  from h have sub: "set row_ids \<subseteq> set (table_id dt)" by (elim conjE)
  from h have i: "index" by (elim conjE)
  from h have hc: "has_column dt name" by (elim conjE)
  show "set_dynamic_table_property dt row_ids name values index dflt descr =
        Inl (NotImplementedError, dt)"
    unfolding set_property_index [OF sub i] using hc by simp
next
  assume h: "set row_ids \<subseteq> set (table_id dt) \<and> index \<and> \<not> has_column dt name"
  from h have sub: "set row_ids \<subseteq> set (table_id dt)" by (elim conjE)
  from h have i: "index" by (elim conjE)
  from h have hc: "\<not> has_column dt name" by (elim conjE)
  show "set_dynamic_table_property dt row_ids name values index dflt descr =
        Inr (add_column dt name descr values True)"
    unfolding set_property_index [OF sub i] using hc by simp
  show "table_id (add_column dt name descr values True) = table_id dt"
    by (simp add: add_column_def)
  show "butlast (table_columns (add_column dt name descr values True)) = table_columns dt"
    by (simp add: add_column_def)
  show "col_name (last (table_columns (add_column dt name descr values True))) = name"
    by (simp add: add_column_def)
  show "col_data (last (table_columns (add_column dt name descr values True))) = values"
    by (simp add: add_column_def)
qed

theorem set_dynamic_table_property_frame_witness:
  "(\<exists>i \<in> set [99]. i \<notin> set (table_id table_three))
   \<and> set_dynamic_table_property table_three [99] ''snr'' [9] False 0 ''d'' =
        Inl (ValueError ''ids contains values outside the range of existing ids'', table_three)
   \<and> set [20] \<subseteq> set (table_id table_three) \<and> length [20 :: int] = length [9 :: int]
   \<and> has_column table_three ''snr'' \<and> \<not> has_column table_three ''area''
   \<and> length (col_data (table_columns table_three ! column_pos table_three ''snr''))
        = length (table_id table_three)
   \<and> (\<exists>data'. set_dynamic_table_property table_three [20] ''snr'' [9] False 0 ''d'' =
                  Inr (with_column_data table_three ''snr'' data')
         \<and> length data' = 3 \<and> data' ! 0 = 1 \<and> data' ! 1 = 9 \<and> data' ! 2 = 3)
   \<and> (\<exists>data'. set_dynamic_table_property table_three [20] ''area'' [9] False 0 ''d'' =
                  Inr (add_column table_three ''area'' ''d'' data' False)
         \<and> length data' = 3 \<and> data' ! 0 = 0 \<and> data' ! 1 = 9 \<and> data' ! 2 = 0)
   \<and> set_dynamic_table_property table_three [20] ''snr'' [9] True 0 ''d'' =
        Inl (NotImplementedError, table_three)
   \<and> set_dynamic_table_property table_three [20] ''area'' [5, 6, 7] True 0 ''d'' =
        Inr (add_column table_three ''area'' ''d'' [5, 6, 7] True)
   \<and> col_data (last (table_columns (add_column table_three ''area'' ''d'' [5, 6, 7] True)))
        = [5, 6, 7]"
proof -
  have ids: "table_id table_three = [10, 20, 30]" by (simp add: table_three_def)
  have h1: "\<exists>i \<in> set [99]. i \<notin> set (table_id table_three)" by (simp add: ids)
  have h2: "set [20] \<subseteq> set (table_id table_three)" by (simp add: ids)
  have h3: "has_column table_three ''snr''" by (simp add: has_column_def table_three_def)
  have h4: "\<not> has_column table_three ''area''" by (simp add: has_column_def table_three_def)
  have cp: "column_pos table_three ''snr'' = 0"
    by (simp add: column_pos_def table_three_def index_of_def)
  have old: "col_data (table_columns table_three ! column_pos table_three ''snr'') = [1, 2, 3]"
    unfolding cp by (simp add: table_three_def)
  have h5: "length (col_data (table_columns table_three ! column_pos table_three ''snr''))
        = length (table_id table_three)"
    unfolding old ids by simp
  have i20: "index_of (table_id table_three) 20 = 1" by (simp add: ids index_of_def)
  note a = set_dynamic_table_property_frame [of "[99]" table_three "''snr''" "[9]" False 0 "''d''"]
  note b = set_dynamic_table_property_frame [of "[20]" table_three "''snr''" "[9]" False 0 "''d''"]
  note c = set_dynamic_table_property_frame [of "[20]" table_three "''area''" "[9]" False 0 "''d''"]
  have c1: "set_dynamic_table_property table_three [99] ''snr'' [9] False 0 ''d'' =
        Inl (ValueError ''ids contains values outside the range of existing ids'', table_three)"
    using a h1 by blast
  from b h2 h3 h5 obtain d2 where d2:
    "set_dynamic_table_property table_three [20] ''snr'' [9] False 0 ''d'' =
       Inr (with_column_data table_three ''snr'' d2)"
    "length d2 = length (table_id table_three)"
    "\<forall>p < length (table_id table_three). table_id table_three ! p \<notin> set [20] \<longrightarrow>
        d2 ! p = col_data (table_columns table_three ! column_pos table_three ''snr'') ! p"
    "distinct [20 :: int] \<longrightarrow>
        (\<forall>k < length [20 :: int]. d2 ! index_of (table_id table_three) ([20] ! k) = [9] ! k)"
    by auto
  have e2: "d2 ! 0 = 1 \<and> d2 ! 1 = 9 \<and> d2 ! 2 = 3 \<and> length d2 = 3"
    using d2(2,3,4) unfolding old by (simp add: ids index_of_def)
  from c h2 h4 obtain d3 where d3:
    "set_dynamic_table_property table_three [20] ''area'' [9] False 0 ''d'' =
       Inr (add_column table_three ''area'' ''d'' d3 False)"
    "length d3 = length (table_id table_three)"
    "\<forall>p < length (table_id table_three). table_id table_three ! p \<notin> set [20] \<longrightarrow> d3 ! p = 0"
    "distinct [20 :: int] \<longrightarrow>
        (\<forall>k < length [20 :: int]. d3 ! index_of (table_id table_three) ([20] ! k) = [9] ! k)"
    by auto
  have e3: "d3 ! 0 = 0 \<and> d3 ! 1 = 9 \<and> d3 ! 2 = 0 \<and> length d3 = 3"
    using d3(2,3,4) by (simp add: ids index_of_def)
  note d = set_dynamic_table_property_frame [of "[20]" table_three "''snr''" "[9]" True 0 "''d''"]
  note e = set_dynamic_table_property_frame [of "[20]" table_three "''area''" "[5, 6, 7]" True 0 "''d''"]
  have d4: "set_dynamic_table_property table_three [20] ''snr'' [9] True 0 ''d'' =
        Inl (NotImplementedError, table_three)"
    using d h2 h3 by blast
  have e4: "set_dynamic_table_property table_three [20] ''area'' [5, 6, 7] True 0 ''d'' =
        Inr (add_column table_three ''area'' ''d'' [5, 6, 7] True)"
    "col_data (last (table_columns (add_column table_three ''area'' ''d'' [5, 6, 7] True)))
        = [5, 6, 7]"
    using e h2 h4 by blast+
  show ?thesis
    using h1 c1 h2 h3 h4 h5 d2(1) e2 d3(1) e3 d4 e4 by auto
qed

text \<open>
  Claim C8 as stated fails with \<^verbatim>\<open>index=True\<close>: the new column is the list of values as
  given, so the row with id 10, which is not supplied, holds 5 and not the default 0; the
  default value is not used at all, the default 1 giving the same table.
\<close>

theorem set_dynamic_table_property_index_counterexample:
  "set [20] \<subseteq> set (table_id table_three) \<and> \<not> has_column table_three ''area''
   \<and> set_dynamic_table_property table_three [20] ''area'' [5, 6, 7] True 0 ''d'' =
        Inr (add_column table_three ''area'' ''d'' [5, 6, 7] True)
   \<and> table_id table_three ! 0 = 10 \<and> 10 \<notin> set [20 :: int]
   \<and> col_data (last (table_columns (add_column table_three ''area'' ''d'' [5, 6, 7] True))) ! 0 = 5
   \<and> (5 :: int) \<noteq> 0
   \<and> set_dynamic_table_property table_three [20] ''area'' [5, 6, 7] True 1 ''d'' =
        set_dynamic_table_property table_three [20] ''area'' [5, 6, 7] True 0 ''d''"
  by (simp add: set_dynamic_table_property_def has_column_def table_three_def add_column_def)

subsection \<open>write\_imaging on an existing target without overwrite\<close>

lemma path_suffix_h5: "path_suffix ''/data/movie.h5'' = ''.h5''"
  by (simp add: path_suffix_def path_name_def)

lemma path_suffix_dat: "path_suffix ''/data/movie.dat'' = ''.dat''"
  by (simp add: path_suffix_def path_name_def)

lemma path_suffix_hidden: "path_suffix ''/data/.h5'' = ''''"
  by (simp add: path_suffix_def path_name_def)

text \<open>
  Claim C2, as amended. When the target path is an existing file and \<^verbatim>\<open>overwrite\<close> is false,
  \<^verbatim>\<open>write_imaging\<close> fails and the file system is what it was before the call: with
  FileExistsError when the suffix of the path is \<^verbatim>\<open>.h5\<close> or \<^verbatim>\<open>.hdf5\<close>, and with the failed
  suffix assertion otherwise.
\<close>

theorem write_imaging_existing_no_overwrite:
  assumes "fs save_path = Some (RegularFile c)"
  shows "write_imaging w sf fs imaging save_path False mov_field =
           Inl (if path_suffix save_path \<in> {''.h5'', ''.hdf5''}
                then FileExistsError ''The specified path exists! Use overwrite=True to overwrite it.''
                else AssertionError ''save_path file is not an .hdf5 or .h5 file'', fs)"
  using assms by (simp add: write_imaging_def is_file_def)

theorem write_imaging_existing_no_overwrite_witness:
  "fs_two ''/data/movie.h5'' = Some (RegularFile [''mov'' \<mapsto> \<lparr>dset_data = [1, 2, 3], dset_attrs = Map.empty\<rparr>])
   \<and> write_imaging store_movie (\<lambda>i. 30) fs_two [7, 8] ''/data/movie.h5'' False ''mov'' =
        Inl (FileExistsError ''The specified path exists! Use overwrite=True to overwrite it.'', fs_two)"
proof -
  have a: "fs_two ''/data/movie.h5'' = Some (RegularFile [''mov'' \<mapsto> \<lparr>dset_data = [1, 2, 3], dset_attrs = Map.empty\<rparr>])"
    by (simp add: fs_two_def)
  show ?thesis
    using write_imaging_existing_no_overwrite [where fs = fs_two and save_path = "''/data/movie.h5''"
        and w = store_movie and sf = "\<lambda>i. 30" and imaging = "[7, 8]" and mov_field = "''mov''"] a
    by (simp add: path_suffix_h5)
qed

text \<open>
  Claim C2 as stated fails for an existing file whose suffix is neither \<^verbatim>\<open>.h5\<close> nor
  \<^verbatim>\<open>.hdf5\<close>: the suffix assertion comes first, so the error is not the already-exists error
  (nothing is written either).
\<close>

theorem write_imaging_suffix_counterexample:
  "fs_two ''/data/movie.dat'' = Some (RegularFile Map.empty)
   \<and> write_imaging store_movie (\<lambda>i. 30) fs_two [7, 8] ''/data/movie.dat'' False ''mov'' =
        Inl (AssertionError ''save_path file is not an .hdf5 or .h5 file'', fs_two)"
  by (simp add: write_imaging_def path_suffix_dat) (simp add: fs_two_def)

text \<open>With \<^verbatim>\<open>overwrite=True\<close> the same call replaces the file.\<close>

lemma write_imaging_overwrite:
  "write_imaging store_movie (\<lambda>i. 30) fs_two [7, 8] ''/data/movie.h5'' True ''mov'' =
     Inr (fs_two(''/data/movie.h5'' \<mapsto> RegularFile [''mov'' \<mapsto> \<lparr>dset_data = [7, 8], dset_attrs = [''fr'' \<mapsto> 30]\<rparr>]))"
  by (simp add: write_imaging_def path_suffix_h5 is_file_def store_movie_def)
    (simp add: fs_two_def)

subsection \<open>VideoStructure: shapes under axis permutations\<close>

lemma valid_axes_permutation:
  "valid_axes ra ca cha fa \<longleftrightarrow> set [ra, ca, cha, fa] = {0, 1, 2, 3}"
proof
  assume v: "valid_axes ra ca cha fa"
  then have d: "distinct [ra, ca, cha, fa]" by (simp add: valid_axes_def)
  have "card (set [ra, ca, cha, fa]) = length [ra, ca, cha, fa]"
    using d by (rule distinct_card)
  then have c: "card (set [ra, ca, cha, fa]) = card {0, 1, 2, 3 :: int}" by simp
  have "\<forall>a \<in> set [ra, ca, cha, fa]. 0 \<le> a \<and> a \<le> 3" using v unfolding valid_axes_def by (rule conjunct2)
  then have sub: "set [ra, ca, cha, fa] \<subseteq> {0, 1, 2, 3}"
  proof (intro subsetI)
    fix a assume "\<forall>a \<in> set [ra, ca, cha, fa]. 0 \<le> a \<and> a \<le> 3" "a \<in> set [ra, ca, cha, fa]"
    then have "0 \<le> a \<and> a \<le> 3" by (rule bspec)
    then have "a = 0 \<or> a = 1 \<or> a = 2 \<or> a = 3" by arith
    then show "a \<in> {0, 1, 2, 3}" by simp
  qed
  have "finite {0, 1, 2, 3 :: int}" by simp
  then show "set [ra, ca, cha, fa] = {0, 1, 2, 3}" using sub c by (rule card_subset_eq)
next
  assume s: "set [ra, ca, cha, fa] = {0, 1, 2, 3}"
  then have "card (set [ra, ca, cha, fa]) = length [ra, ca, cha, fa]" by simp
  then have "distinct [ra, ca, cha, fa]" by (rule card_distinct)
  moreover have "\<forall>a \<in> set [ra, ca, cha, fa]. 0 \<le> a \<and> a \<le> 3" unfolding s by simp
  ultimately show "valid_axes ra ca cha fa" unfolding valid_axes_def by (rule conjI)
qed

lemma nat_axis:
  assumes "valid_axes ra ca cha fa"
  shows "nat ra < 4 \<and> nat ca < 4 \<and> nat cha < 4 \<and> nat fa < 4
         \<and> nat ra \<noteq> nat ca \<and> nat ra \<noteq> nat cha \<and> nat ra \<noteq> nat fa
         \<and> nat ca \<noteq> nat cha \<and> nat ca \<noteq> nat fa \<and> nat cha \<noteq> nat fa"
  using assms unfolding valid_axes_def by auto

lemma four_updates:
  assumes "length xs = 4" "a < 4" "b < 4" "c < 4" "d < 4"
    "a \<noteq> b" "a \<noteq> c" "a \<noteq> d" "b \<noteq> c" "b \<noteq> d" "c \<noteq> d"
  shows "length (xs[d := w, a := x, b := y, c := z]) = 4"
    and "xs[d := w, a := x, b := y, c := z] ! d = w"
    and "xs[d := w, a := x, b := y, c := z] ! a = x"
    and "xs[d := w, a := x, b := y, c := z] ! b = y"
    and "xs[d := w, a := x, b := y, c := z] ! c = z"
  using assms by (simp_all add: nth_list_update)

lemma build_video_shape_slots:
  assumes "valid_axes (rows_axis vs) (columns_axis vs) (num_channels_axis vs) (frame_axis vs)"
  shows "length (build_video_shape vs n) = 4"
    and "build_video_shape vs n ! nat (frame_axis vs) = Some n"
    and "build_video_shape vs n ! nat (rows_axis vs) = Some (rows vs)"
    and "build_video_shape vs n ! nat (columns_axis vs) = Some (columns vs)"
    and "build_video_shape vs n ! nat (num_channels_axis vs) = Some (num_channels vs)"
proof -
  have len: "length [None, None, None, None :: int option] = 4" by simp
  from nat_axis [OF assms]
  have h: "nat (rows_axis vs) < 4" "nat (columns_axis vs) < 4" "nat (num_channels_axis vs) < 4"
    "nat (frame_axis vs) < 4"
    "nat (rows_axis vs) \<noteq> nat (columns_axis vs)" "nat (rows_axis vs) \<noteq> nat (num_channels_axis vs)"
    "nat (rows_axis vs) \<noteq> nat (frame_axis vs)" "nat (columns_axis vs) \<noteq> nat (num_channels_axis vs)"
    "nat (columns_axis vs) \<noteq> nat (frame_axis vs)" "nat (num_channels_axis vs) \<noteq> nat (frame_axis vs)"
    by simp_all
  note f = four_updates [OF len h]
  show "length (build_video_shape vs n) = 4" unfolding build_video_shape_def by (rule f(1))
  show "build_video_shape vs n ! nat (frame_axis vs) = Some n"
    unfolding build_video_shape_def by (rule f(2))
  show "build_video_shape vs n ! nat (rows_axis vs) = Some (rows vs)"
    unfolding build_video_shape_def by (rule f(3))
  show "build_video_shape vs n ! nat (columns_axis vs) = Some (columns vs)"
    unfolding build_video_shape_def by (rule f(4))
  show "build_video_shape vs n ! nat (num_channels_axis vs) = Some (num_channels vs)"
    unfolding build_video_shape_def by (rule f(5))
qed

lemma less_4_cases: "(k::nat) < 4 \<Longrightarrow> k = 0 \<or> k = 1 \<or> k = 2 \<or> k = 3"
  by arith

lemma frame_shape_product:
  assumes "valid_axes (rows_axis vs) (columns_axis vs) (num_channels_axis vs) (frame_axis vs)"
  shows "length (frame_shape vs) = 3
         \<and> prod_list (map the (frame_shape vs)) = rows vs * columns vs * num_channels vs
         \<and> frame_shape vs = take (nat (frame_axis vs)) (build_video_shape vs n)
                             @ drop (Suc (nat (frame_axis vs))) (build_video_shape vs n)"
proof -
  define a b c d where "a = nat (rows_axis vs)" and "b = nat (columns_axis vs)"
    and "c = nat (num_channels_axis vs)" and "d = nat (frame_axis vs)"
  from nat_axis [OF assms]
  have lt: "a < 4" "b < 4" "c < 4" "d < 4" and ne: "a \<noteq> b" "a \<noteq> c" "a \<noteq> d" "b \<noteq> c" "b \<noteq> d" "c \<noteq> d"
    unfolding a_def b_def c_def d_def by simp_all
  note ca = less_4_cases [OF lt(1)] and cb = less_4_cases [OF lt(2)]
    and cc = less_4_cases [OF lt(3)] and cd = less_4_cases [OF lt(4)]
  have "length ((take d ([None, None, None, None][a := Some (rows vs), b := Some (columns vs), c := Some (num_channels vs)])
          @ drop (Suc d) ([None, None, None, None][a := Some (rows vs), b := Some (columns vs), c := Some (num_channels vs)]))) = 3
     \<and> prod_list (map the (take d ([None, None, None, None][a := Some (rows vs), b := Some (columns vs), c := Some (num_channels vs)])
          @ drop (Suc d) ([None, None, None, None][a := Some (rows vs), b := Some (columns vs), c := Some (num_channels vs)])))
         = rows vs * columns vs * num_channels vs
     \<and> take d ([None, None, None, None][a := Some (rows vs), b := Some (columns vs), c := Some (num_channels vs)])
          @ drop (Suc d) ([None, None, None, None][a := Some (rows vs), b := Some (columns vs), c := Some (num_channels vs)])
        = take d ([None, None, None, None][d := Some n, a := Some (rows vs), b := Some (columns vs), c := Some (num_channels vs)])
          @ drop (Suc d) ([None, None, None, None][d := Some n, a := Some (rows vs), b := Some (columns vs), c := Some (num_channels vs)])"
    using ca cb cc cd ne by (elim disjE) simp_all
  then show ?thesis
    unfolding frame_shape_def build_video_shape_def Let_def a_def b_def c_def d_def .
qed

text \<open>
  Claim C9. When the constructor succeeds, \<^verbatim>\<open>build_video_shape(n)\<close> has four slots, with \<open>n\<close>
  at the frame axis and rows, columns and channels at their axes, and the number of pixels
  per frame is rows \<times> columns \<times> channels, which is also the product of the frame shape,
  whatever the permutation. The constructor succeeds when the four axes are a permutation
  of 0, 1, 2, 3, and fails with the configuration error holding the four given values when
  they are not.
\<close>

theorem video_structure_shapes:
  "(VideoStructure r c ch ra ca cha fa = Inr vs \<longrightarrow>
        length (build_video_shape vs n) = 4
      \<and> build_video_shape vs n ! nat fa = Some n
      \<and> build_video_shape vs n ! nat ra = Some r
      \<and> build_video_shape vs n ! nat ca = Some c
      \<and> build_video_shape vs n ! nat cha = Some ch
      \<and> number_of_pixels_per_frame vs = r * c * ch
      \<and> prod_list (map the (frame_shape vs)) = r * c * ch)
   \<and> (set [ra, ca, cha, fa] = {0, 1, 2, 3} \<longrightarrow> (\<exists>vs'. VideoStructure r c ch ra ca cha fa = Inr vs'))
   \<and> (set [ra, ca, cha, fa] \<noteq> {0, 1, 2, 3} \<longrightarrow>
        VideoStructure r c ch ra ca cha fa = Inl (ConfigurationError (ra, ca, cha, fa)))"
proof (intro conjI impI)
  assume ok: "VideoStructure r c ch ra ca cha fa = Inr vs"
  then have v: "valid_axes ra ca cha fa"
    unfolding VideoStructure_def by (simp split: if_splits)
  with ok have vs: "vs = \<lparr>rows = r, columns = c, num_channels = ch, rows_axis = ra,
      columns_axis = ca, num_channels_axis = cha, frame_axis = fa\<rparr>"
    unfolding VideoStructure_def by simp
  have f: "rows vs = r" "columns vs = c" "num_channels vs = ch" "rows_axis vs = ra"
    "columns_axis vs = ca" "num_channels_axis vs = cha" "frame_axis vs = fa"
    unfolding vs by simp_all
  have v': "valid_axes (rows_axis vs) (columns_axis vs) (num_channels_axis vs) (frame_axis vs)"
    unfolding f by (rule v)
  show "length (build_video_shape vs n) = 4" by (rule build_video_shape_slots(1) [OF v'])
  show "build_video_shape vs n ! nat fa = Some n"
    using build_video_shape_slots(2) [OF v', of n] unfolding f .
  show "build_video_shape vs n ! nat ra = Some r"
    using build_video_shape_slots(3) [OF v', of n] unfolding f .
  show "build_video_shape vs n ! nat ca = Some c"
    using build_video_shape_slots(4) [OF v', of n] unfolding f .
  show "build_video_shape vs n ! nat cha = Some ch"
    using build_video_shape_slots(5) [OF v', of n] unfolding f .
  show "number_of_pixels_per_frame vs = r * c * ch"
    unfolding number_of_pixels_per_frame_def f ..
  show "prod_list (map the (frame_shape vs)) = r * c * ch"
    using frame_shape_product [OF v', of n, THEN conjunct2, THEN conjunct1] unfolding f .
next
  assume "set [ra, ca, cha, fa] = {0, 1, 2, 3}"
  then have "valid_axes ra ca cha fa" unfolding valid_axes_permutation .
  then show "\<exists>vs'. VideoStructure r c ch ra ca cha fa = Inr vs'"
    unfolding VideoStructure_def by simp
next
  assume "set [ra, ca, cha, fa] \<noteq> {0, 1, 2, 3}"
  then have "\<not> valid_axes ra ca cha fa" unfolding valid_axes_permutation .
  then show "VideoStructure r c ch ra ca cha fa = Inl (ConfigurationError (ra, ca, cha, fa))"
    unfolding VideoStructure_def by simp
qed

text \<open>The values of the tests of \<^verbatim>\<open>TestVideoStructureClass\<close>.\<close>

lemma video_structure_test_basic_parameters:
  "VideoStructure 10 5 3 1 2 3 0 =
     Inr \<lparr>rows = 10, columns = 5, num_channels = 3, rows_axis = 1, columns_axis = 2,
          num_channels_axis = 3, frame_axis = 0\<rparr>
   \<and> frame_shape \<lparr>rows = 10, columns = 5, num_channels = 3, rows_axis = 1, columns_axis = 2,
          num_channels_axis = 3, frame_axis = 0\<rparr> = [Some 10, Some 5, Some 3]
   \<and> number_of_pixels_per_frame \<lparr>rows = 10, columns = 5, num_channels = 3, rows_axis = 1,
          columns_axis = 2, num_channels_axis = 3, frame_axis = 0\<rparr> = 10 * 5 * 3
   \<and> build_video_shape \<lparr>rows = 10, columns = 5, num_channels = 3, rows_axis = 1, columns_axis = 2,
          num_channels_axis = 3, frame_axis = 0\<rparr> 20 = [Some 20, Some 10, Some 5, Some 3]"
  by (simp add: VideoStructure_def valid_axes_def frame_shape_def build_video_shape_def
      number_of_pixels_per_frame_def numeral_2_eq_2 numeral_3_eq_3)

lemma video_structure_test_axis_permutation_1:
  "VideoStructure 10 5 3 2 1 0 3 =
     Inr \<lparr>rows = 10, columns = 5, num_channels = 3, rows_axis = 2, columns_axis = 1,
          num_channels_axis = 0, frame_axis = 3\<rparr>
   \<and> frame_shape \<lparr>rows = 10, columns = 5, num_channels = 3, rows_axis = 2, columns_axis = 1,
          num_channels_axis = 0, frame_axis = 3\<rparr> = [Some 3, Some 5, Some 10]
   \<and> build_video_shape \<lparr>rows = 10, columns = 5, num_channels = 3, rows_axis = 2, columns_axis = 1,
          num_channels_axis = 0, frame_axis = 3\<rparr> 20 = [Some 3, Some 5, Some 10, Some 20]"
  by (simp add: VideoStructure_def valid_axes_def frame_shape_def build_video_shape_def
      numeral_2_eq_2 numeral_3_eq_3)

lemma video_structure_test_axis_permutation_2:
  "VideoStructure 10 5 3 0 1 3 2 =
     Inr \<lparr>rows = 10, columns = 5, num_channels = 3, rows_axis = 0, columns_axis = 1,
          num_channels_axis = 3, frame_axis = 2\<rparr>
   \<and> frame_shape \<lparr>rows = 10, columns = 5, num_channels = 3, rows_axis = 0, columns_axis = 1,
          num_channels_axis = 3, frame_axis = 2\<rparr> = [Some 10, Some 5, Some 3]
   \<and> build_video_shape \<lparr>rows = 10, columns = 5, num_channels = 3, rows_axis = 0, columns_axis = 1,
          num_channels_axis = 3, frame_axis = 2\<rparr> 20 = [Some 10, Some 5, Some 20, Some 3]"
  by (simp add: VideoStructure_def valid_axes_def frame_shape_def build_video_shape_def
      numeral_2_eq_2 numeral_3_eq_3)

lemma video_structure_test_invalid:
  "VideoStructure 10 5 3 1 2 3 3 = Inl (ConfigurationError (1, 2, 3, 3))
   \<and> VideoStructure 10 5 3 1 2 3 10 = Inl (ConfigurationError (1, 2, 3, 10))"
  by (simp add: VideoStructure_def valid_axes_def)

theorem video_structure_shapes_witness:
  "VideoStructure 10 5 3 2 1 0 3 =
     Inr \<lparr>rows = 10, columns = 5, num_channels = 3, rows_axis = 2, columns_axis = 1,
          num_channels_axis = 0, frame_axis = 3\<rparr>
   \<and> build_video_shape \<lparr>rows = 10, columns = 5, num_channels = 3, rows_axis = 2, columns_axis = 1,
          num_channels_axis = 0, frame_axis = 3\<rparr> 20 ! nat 3 = Some 20
   \<and> prod_list (map the (frame_shape \<lparr>rows = 10, columns = 5, num_channels = 3, rows_axis = 2,
          columns_axis = 1, num_channels_axis = 0, frame_axis = 3\<rparr>)) = 10 * 5 * 3
   \<and> set [2, 1, 0, 3 :: int] = {0, 1, 2, 3}
   \<and> set [1, 2, 3, 10 :: int] \<noteq> {0, 1, 2, 3}
   \<and> VideoStructure 10 5 3 1 2 3 10 = Inl (ConfigurationError (1, 2, 3, 10))"
proof -
  have a: "VideoStructure 10 5 3 2 1 0 3 =
     Inr \<lparr>rows = 10, columns = 5, num_channels = 3, rows_axis = 2, columns_axis = 1,
          num_channels_axis = 0, frame_axis = 3\<rparr>"
    by (simp add: VideoStructure_def valid_axes_def)
  have b: "set [2, 1, 0, 3 :: int] = {0, 1, 2, 3}" by auto
  have c: "set [1, 2, 3, 10 :: int] \<noteq> {0, 1, 2, 3}"
  proof
    assume e: "set [1, 2, 3, 10 :: int] = {0, 1, 2, 3}"
    have "(10::int) \<in> set [1, 2, 3, 10]" by simp
    then have "(10::int) \<in> {0, 1, 2, 3}" unfolding e .
    then show False by simp
  qed
  note t1 = video_structure_shapes [of 10 5 3 2 1 0 3
      "\<lparr>rows = 10, columns = 5, num_channels = 3, rows_axis = 2, columns_axis = 1,
          num_channels_axis = 0, frame_axis = 3\<rparr>" 20]
  note t2 = video_structure_shapes [where r = 10 and c = 5 and ch = 3 and ra = 1 and ca = 2
      and cha = 3 and fa = 10]
  from t1 a have "build_video_shape \<lparr>rows = 10, columns = 5, num_channels = 3, rows_axis = 2,
       columns_axis = 1, num_channels_axis = 0, frame_axis = 3\<rparr> 20 ! nat 3 = Some 20"
    and "prod_list (map the (frame_shape \<lparr>rows = 10, columns = 5, num_channels = 3, rows_axis = 2,
          columns_axis = 1, num_channels_axis = 0, frame_axis = 3\<rparr>)) = 10 * 5 * 3"
    by blast+
  moreover from t2 c have "VideoStructure 10 5 3 1 2 3 10 = Inl (ConfigurationError (1, 2, 3, 10))"
    by blast
  ultimately show ?thesis using a b c by blast
qed

subsection \<open>write\_nwb: the objects of the file\<close>

lemma enumerate_py_nth: "enumerate_py xs = map (\<lambda>i. (i, xs ! i)) [0..<length xs]"
  unfolding enumerate_py_def by (intro nth_equalityI) simp_all

lemma name_matches_filter: "name_matches names x = [i \<leftarrow> [0..<length names]. names ! i = x]"
  unfolding name_matches_def enumerate_py_nth by (simp add: filter_map o_def)

lemma name_matches_set:
  "set (name_matches names x) = {i. i < length names \<and> names ! i = x}"
  unfolding name_matches_filter by auto

lemma name_matches_Nil: "name_matches names x = [] \<longleftrightarrow> x \<notin> set names"
proof -
  have "name_matches names x = [] \<longleftrightarrow> set (name_matches names x) = {}" by simp
  also have "\<dots> \<longleftrightarrow> x \<notin> set names"
    unfolding name_matches_set by (auto simp: in_set_conv_nth)
  finally show ?thesis .
qed

lemma name_matches_less: "i \<in> set (name_matches names x) \<Longrightarrow> i < length names"
  unfolding name_matches_set by simp

lemma device_step_match:
  assumes "device_name args \<in> set names"
  shows "device_step args names st =
           Inl (TypeError ''> not supported between instances of list and int'', st)"
  using assms unfolding device_step_def Let_def by (simp add: name_matches_Nil)

lemma ext_seg_nwb: "map lower_char (splitext_ext ''/data/seg.nwb'') = ''.nwb''"
  by (simp add: splitext_ext_def path_name_def lower_char_def)

lemma ext_upper: "map lower_char (splitext_ext ''/data/SEG.NWB'') = ''.nwb''"
  by (simp add: splitext_ext_def path_name_def lower_char_def)

text \<open>
  Claim C1. Writing into a file that does not exist never returns: whatever the extractor,
  the arguments and the rest of the function are, \<^verbatim>\<open>write_nwb\<close> ends in an error, and when
  the channel names and the file name pass their checks the error is the UnboundLocalError
  of the local \<^verbatim>\<open>device\<close>, raised while the imaging plane of the new file is created. The
  lines that fill and write the file are not reached.
\<close>

theorem write_nwb_fresh_file_fails:
  assumes "files filename = None"
  shows "(\<exists>err. write_nwb rest files filename args = Inl err)
       \<and> (\<forall>names. optical_channel_names args = Inr names
              \<and> map lower_char (splitext_ext filename) = ''.nwb'' \<longrightarrow>
            write_nwb rest files filename args = Inl (UnboundLocalError ''device''))"
proof -
  have fr: "write_nwb_fresh args (locals0 \<lparr>all_children = []\<rparr>) =
      Inl (UnboundLocalError ''device'',
           (locals0 \<lparr>all_children = []\<rparr>)\<lparr>nwbfile := add_object \<lparr>all_children = []\<rparr>
               \<lparr>oclass = Device, oname = device_name args\<rparr>\<rparr>)"
    for args :: write_args
    unfolding write_nwb_fresh_def Let_def by (simp add: locals0_def)
  show ?thesis
    unfolding write_nwb_def assms
    by (cases "optical_channel_names args") (simp_all add: fr)
qed

theorem write_nwb_fresh_file_fails_witness:
  "Map.empty ''/data/seg.nwb'' = (None :: int nwbfile option)
   \<and> optical_channel_names default_args = Inr (Some [''green''])
   \<and> map lower_char (splitext_ext ''/data/seg.nwb'') = ''.nwb''
   \<and> write_nwb (\<lambda>st. Inr st) (Map.empty :: string \<rightharpoonup> int nwbfile) ''/data/seg.nwb'' default_args
        = Inl (UnboundLocalError ''device'')"
proof -
  have a: "Map.empty ''/data/seg.nwb'' = (None :: int nwbfile option)" by simp
  have b: "optical_channel_names default_args = Inr (Some [''green''])"
    by (simp add: optical_channel_names_def default_args_def)
  note t = write_nwb_fresh_file_fails [OF a, where rest = "\<lambda>st. Inr st" and args = default_args]
  have "write_nwb (\<lambda>st. Inr st) (Map.empty :: string \<rightharpoonup> int nwbfile) ''/data/seg.nwb'' default_args
        = Inl (UnboundLocalError ''device'')"
    by (rule t [THEN conjunct2, rule_format, OF conjI [OF b ext_seg_nwb]])
  with a b ext_seg_nwb show ?thesis by simp
qed

subsection \<open>write\_nwb on a file that exists: the device and its sibling steps\<close>

lemma device_step_no_match:
  assumes "device_name args \<notin> set names"
  shows "device_step args names st =
           Inr (st\<lparr>nwbfile := add_object (nwbfile st) \<lparr>oclass = Device, oname = device_name args\<rparr>,
                   device := Some (hd (devices (add_object (nwbfile st)
                                      \<lparr>oclass = Device, oname = device_name args\<rparr>)))\<rparr>)"
proof -
  let ?f = "add_object (nwbfile st) \<lparr>oclass = Device, oname = device_name args\<rparr>"
  have "\<lparr>oclass = Device, oname = device_name args\<rparr> \<in> set (devices ?f)"
    by (simp add: devices_def add_object_def)
  then obtain d ds where d: "devices ?f = d # ds" by (cases "devices ?f") auto
  show ?thesis
    using assms unfolding device_step_def Let_def
    by (simp add: name_matches_Nil d)
qed

lemma then_step_Inl: "s1 st = Inl err \<Longrightarrow> then_step s1 s2 st = Inl err"
  by (simp add: then_step_def)

lemma then_step_Inr: "s1 st = Inr st' \<Longrightarrow> then_step s1 s2 st = s2 st'"
  by (simp add: then_step_def)

lemma write_nwb_existing_device_match:
  assumes "device_name args \<in> oname ` set (all_children f)"
  shows "write_nwb_existing args oc_names (locals0 f) =
           Inl (TypeError ''> not supported between instances of list and int'', locals0 f)"
proof -
  have m: "device_name args \<in> set (map oname (all_children (nwbfile (locals0 f))))"
    using assms by (simp add: locals0_def)
  show ?thesis
    unfolding write_nwb_existing_def Let_def
    by (rule then_step_Inl) (rule device_step_match [OF m])
qed

text \<open>The four steps after the device: no match creates, one match binds the local to the
  object found, several matches raise the fixed message and change nothing.\<close>

lemma name_matches_one:
  assumes "name_matches names x = [i]"
  shows "i < length names" and "names ! i = x"
  using name_matches_set [of names x] unfolding assms by auto

lemma optical_channel_step_cases:
  "name_matches (map Some names) (optical_channel_name args) = [] \<Longrightarrow>
     optical_channel_step args (Some vals) names st =
       Inr (st\<lparr>optical_channel_list := Some (new_channels vals)\<rparr>)"
  "name_matches (map Some names) (optical_channel_name args) = [i] \<Longrightarrow>
   i < length (all_children (nwbfile st)) \<Longrightarrow>
     optical_channel_step args (Some vals) names st =
       Inr (st\<lparr>optical_channel_list :=
                 Some (new_channels (drop 1 vals) @ [Item (all_children (nwbfile st) ! i)])\<rparr>)"
  "1 < length (name_matches (map Some names) (optical_channel_name args)) \<Longrightarrow>
     optical_channel_step args oc_names names st =
       Inl (Exception ''Multiple Optical Channels exist, provide name of one'', st)"
  unfolding optical_channel_step_def Let_def child_at_def by auto

lemma imaging_plane_step_cases:
  "name_matches names (imaging_plane_name args) = [] \<Longrightarrow>
   optical_channel_list st = Some chs \<Longrightarrow> device st = Some d \<Longrightarrow>
     imaging_plane_step args names st =
       Inr (st\<lparr>nwbfile := add_object (nwbfile st)
                  \<lparr>oclass = ImagingPlane (channel_item_names chs), oname = imaging_plane_name args\<rparr>\<rparr>)"
  "name_matches names (imaging_plane_name args) = [i] \<Longrightarrow>
   i < length (all_children (nwbfile st)) \<Longrightarrow>
     imaging_plane_step args names st = Inr (st\<lparr>imaging_plane := Some (all_children (nwbfile st) ! i)\<rparr>)"
  "1 < length (name_matches names (imaging_plane_name args)) \<Longrightarrow>
     imaging_plane_step args names st =
       Inl (Exception ''Multiple Imaging Planes exist, provide name of one'', st)"
  unfolding imaging_plane_step_def Let_def child_at_def by auto

lemma image_series_step_cases:
  "name_matches names (image_series_name args) = [] \<Longrightarrow>
     image_series_step args names st =
       Inr (st\<lparr>nwbfile := add_object (nwbfile st)
                  \<lparr>oclass = TwoPhotonSeries [seg_movie_location args], oname = image_series_name args\<rparr>\<rparr>)"
  "name_matches names (image_series_name args) = [i] \<Longrightarrow>
   i < length (all_children (nwbfile st)) \<Longrightarrow>
     image_series_step args names st = Inr (st\<lparr>image_series := Some (all_children (nwbfile st) ! i)\<rparr>)"
  "1 < length (name_matches names (image_series_name args)) \<Longrightarrow>
     image_series_step args names st =
       Inl (Exception ''Multiple Imaging Series exist, provide name of one'', st)"
  unfolding image_series_step_def Let_def child_at_def by auto

lemma processing_module_step_cases:
  "name_matches names (processing_module_name args) = [] \<Longrightarrow>
     processing_module_step args names st =
       Inr (st\<lparr>nwbfile := add_object (nwbfile st)
                  \<lparr>oclass = ProcessingModule, oname = processing_module_name args\<rparr>,
               modl := Some \<lparr>oclass = ProcessingModule, oname = processing_module_name args\<rparr>\<rparr>)"
  "name_matches names (processing_module_name args) = [i] \<Longrightarrow>
   i < length (all_children (nwbfile st)) \<Longrightarrow>
     processing_module_step args names st = Inr (st\<lparr>modl := Some (all_children (nwbfile st) ! i)\<rparr>)"
  "1 < length (name_matches names (processing_module_name args)) \<Longrightarrow>
     processing_module_step args names st =
       Inl (Exception ''Multiple Ophys modules exist, provide name of one'', st)"
  unfolding processing_module_step_def Let_def child_at_def by auto

text \<open>
  Claim C3. The device step never reuses a device. When an object of the file has the device
  name, be it one or several, the step raises TypeError, the file and the locals staying as
  they are, and \<^verbatim>\<open>write_nwb\<close> on that file ends with this error; when none has, the step adds
  a new device and binds \<^verbatim>\<open>device\<close> to the first device of the file.
\<close>

theorem device_step_never_reuses:
  "(device_name args \<in> set names \<longrightarrow>
      device_step args names st =
        Inl (TypeError ''> not supported between instances of list and int'', st))
   \<and> (device_name args \<notin> set names \<longrightarrow>
      device_step args names st =
        Inr (st\<lparr>nwbfile := add_object (nwbfile st) \<lparr>oclass = Device, oname = device_name args\<rparr>,
                device := Some (hd (devices (add_object (nwbfile st)
                                      \<lparr>oclass = Device, oname = device_name args\<rparr>)))\<rparr>))
   \<and> (\<forall>f oc_names. files filename = Some f \<and> device_name args \<in> oname ` set (all_children f)
         \<and> optical_channel_names args = Inr oc_names
         \<and> map lower_char (splitext_ext filename) = ''.nwb'' \<longrightarrow>
       write_nwb rest files filename args =
         Inl (TypeError ''> not supported between instances of list and int''))"
proof (intro conjI impI allI)
  assume "device_name args \<in> set names"
  then show "device_step args names st =
        Inl (TypeError ''> not supported between instances of list and int'', st)"
    by (rule device_step_match)
next
  assume "device_name args \<notin> set names"
  then show "device_step args names st =
        Inr (st\<lparr>nwbfile := add_object (nwbfile st) \<lparr>oclass = Device, oname = device_name args\<rparr>,
                device := Some (hd (devices (add_object (nwbfile st)
                                      \<lparr>oclass = Device, oname = device_name args\<rparr>)))\<rparr>)"
    by (rule device_step_no_match)
next
  fix f oc_names
  assume h: "files filename = Some f \<and> device_name args \<in> oname ` set (all_children f)
         \<and> optical_channel_names args = Inr oc_names
         \<and> map lower_char (splitext_ext filename) = ''.nwb''"
  then have m: "device_name args \<in> oname ` set (all_children f)" by simp
  show "write_nwb rest files filename args =
         Inl (TypeError ''> not supported between instances of list and int'')"
    using h unfolding write_nwb_def
    by (simp add: write_nwb_existing_device_match [OF m])
qed

theorem device_step_never_reuses_witness:
  "device_name default_args \<in> set [''MyDevice'']
   \<and> device_step default_args [''MyDevice''] (locals0 file_one_device) =
        Inl (TypeError ''> not supported between instances of list and int'', locals0 file_one_device)
   \<and> device_name default_args \<notin> set [''MyImagingPlane'']
   \<and> device (projr (device_step default_args [''MyImagingPlane''] (locals0 file_one_plane)))
        = Some \<lparr>oclass = Device, oname = ''MyDevice''\<rparr>
   \<and> [''/data/seg.nwb'' \<mapsto> file_one_device] ''/data/seg.nwb'' = Some file_one_device
   \<and> write_nwb (\<lambda>st. Inr st) [''/data/seg.nwb'' \<mapsto> file_one_device] ''/data/seg.nwb'' default_args
        = Inl (TypeError ''> not supported between instances of list and int'')"
proof -
  have a: "device_name default_args \<in> set [''MyDevice'']" by (simp add: default_args_def)
  have b: "device_name default_args \<notin> set [''MyImagingPlane'']" by (simp add: default_args_def)
  have c: "[''/data/seg.nwb'' \<mapsto> file_one_device] ''/data/seg.nwb'' = Some file_one_device" by simp
  have d: "device_name default_args \<in> oname ` set (all_children file_one_device)"
    by (simp add: default_args_def file_one_device_def)
  have e: "optical_channel_names default_args = Inr (Some [''green''])"
    by (simp add: optical_channel_names_def default_args_def)
  note t1 = device_step_never_reuses [where args = default_args and names = "[''MyDevice'']"
      and st = "locals0 file_one_device" and rest = "\<lambda>st. Inr st"
      and files = "[''/data/seg.nwb'' \<mapsto> file_one_device]" and filename = "''/data/seg.nwb''"]
  note t2 = device_step_never_reuses [where args = default_args and names = "[''MyImagingPlane'']"
      and st = "locals0 file_one_plane" and rest = "\<lambda>st. Inr st"
      and files = "[''/data/seg.nwb'' \<mapsto> file_one_device]" and filename = "''/data/seg.nwb''"]
  have r1: "device_step default_args [''MyDevice''] (locals0 file_one_device) =
        Inl (TypeError ''> not supported between instances of list and int'', locals0 file_one_device)"
    by (rule t1 [THEN conjunct1, THEN mp, OF a])
  have r2: "device (projr (device_step default_args [''MyImagingPlane''] (locals0 file_one_plane)))
        = Some \<lparr>oclass = Device, oname = ''MyDevice''\<rparr>"
    unfolding t2 [THEN conjunct2, THEN conjunct1, THEN mp, OF b]
    by (simp add: devices_def add_object_def locals0_def file_one_plane_def default_args_def)
  have r3: "write_nwb (\<lambda>st. Inr st) [''/data/seg.nwb'' \<mapsto> file_one_device] ''/data/seg.nwb'' default_args
        = Inl (TypeError ''> not supported between instances of list and int'')"
    by (rule t1 [THEN conjunct2, THEN conjunct2, rule_format,
          OF conjI [OF c conjI [OF d conjI [OF e ext_seg_nwb]]]])
  show ?thesis using a b c r1 r2 r3 by simp
qed

text \<open>Two objects with the name of the imaging plane: the write ends with the fixed message,
  which names neither of them.\<close>

lemma write_nwb_two_planes:
  "write_nwb (\<lambda>st. Inr st) [''/data/seg.nwb'' \<mapsto> file_two_planes] ''/data/seg.nwb'' default_args
     = Inl (Exception ''Multiple Imaging Planes exist, provide name of one'')"
proof -
  define names where "names = [''MyImagingPlane'', ''MyImagingPlane'']"
  define st0 where "st0 = locals0 file_two_planes"
  have n: "map oname (all_children (nwbfile st0)) = names"
    by (simp add: st0_def names_def locals0_def file_two_planes_def)
  have "device_name default_args \<notin> set names" by (simp add: names_def default_args_def)
  from device_step_no_match [OF this, of st0]
  obtain st1 where d: "device_step default_args names st0 = Inr st1" by blast
  have "name_matches (map Some names) (optical_channel_name default_args) = []"
    by (simp add: name_matches_Nil default_args_def)
  from optical_channel_step_cases(1) [OF this, of "[''green'']" st1]
  obtain st2 where o: "optical_channel_step default_args (Some [''green'']) names st1 = Inr st2"
    by blast
  have "1 < length (name_matches names (imaging_plane_name default_args))"
    by (simp add: name_matches_filter names_def default_args_def upt_rec)
  then have i: "imaging_plane_step default_args names st2 =
      Inl (Exception ''Multiple Imaging Planes exist, provide name of one'', st2)"
    by (rule imaging_plane_step_cases(3))
  have w: "write_nwb_existing default_args (Some [''green'']) st0 =
      Inl (Exception ''Multiple Imaging Planes exist, provide name of one'', st2)"
    unfolding write_nwb_existing_def Let_def n
    by (simp add: then_step_def d o i)
  have e: "optical_channel_names default_args = Inr (Some [''green''])"
    by (simp add: optical_channel_names_def default_args_def)
  show ?thesis
    unfolding write_nwb_def e using w by (simp add: ext_seg_nwb st0_def)
qed

subsection \<open>\_\_init\_\_: entities missing from the file\<close>



lemma and_then_cases:
  "(\<exists>err. and_then r k = Inl err) \<longleftrightarrow> (\<exists>err. r = Inl err) \<or> (\<exists>v err. r = Inr v \<and> k v = Inl err)"
  by (cases r) (simp_all add: and_then_def)















end
